theory Spec2Isabelle
  imports Complex_Main
begin

text \<open>
  A model of the voxelization of \<^verbatim>\<open>app.js\<close>: \<^verbatim>\<open>getDimensions\<close>,
  \<^verbatim>\<open>calculateCoordinates\<close>, \<^verbatim>\<open>doesVoxelIntersectObject\<close>, \<^verbatim>\<open>calculateGrid\<close>,
  \<^verbatim>\<open>drawGrid\<close>, \<^verbatim>\<open>clearScene\<close>, \<^verbatim>\<open>changeVoxelsPerUnit\<close> and \<^verbatim>\<open>voxelize\<close>.
  The set-up of the renderer, the camera and the controls and the loading of a model are
  not modelled.
\<close>

section \<open>Numbers\<close>

text \<open>
  The program computes with JavaScript numbers. A finite number is modelled as a real
  number and the arithmetic on finite numbers is exact; the rounding of binary64 is
  modelled for the Coordinate Mapper, in a section of its own. The
  special values that the program can reach are kept: the only division whose divisor is
  not a literal is \<^verbatim>\<open>1 / voxelsPerUnit\<close>, which is \<^verbatim>\<open>Infinity\<close> at
  density zero and turns the coordinates into \<^verbatim>\<open>NaN\<close> or an infinity. Zero has
  no sign in the model: it is the positive zero of JavaScript.
\<close>

datatype number = Fin real | PosInf | NegInf | NaN

fun js_neg :: "number \<Rightarrow> number" where
  "js_neg (Fin a) = Fin (- a)"
| "js_neg PosInf = NegInf"
| "js_neg NegInf = PosInf"
| "js_neg NaN = NaN"

fun js_add :: "number \<Rightarrow> number \<Rightarrow> number" where
  "js_add (Fin a) (Fin b) = Fin (a + b)"
| "js_add NaN _ = NaN"
| "js_add _ NaN = NaN"
| "js_add PosInf NegInf = NaN"
| "js_add NegInf PosInf = NaN"
| "js_add PosInf _ = PosInf"
| "js_add _ PosInf = PosInf"
| "js_add NegInf _ = NegInf"
| "js_add _ NegInf = NegInf"

definition js_sub :: "number \<Rightarrow> number \<Rightarrow> number" where
  "js_sub a b = js_add a (js_neg b)"

text \<open>Zero times an infinity is \<^verbatim>\<open>NaN\<close>; a division by zero is an infinity, or
  \<^verbatim>\<open>NaN\<close> for \<^verbatim>\<open>0 / 0\<close>.\<close>

fun js_mul :: "number \<Rightarrow> number \<Rightarrow> number" where
  "js_mul (Fin a) (Fin b) = Fin (a * b)"
| "js_mul NaN _ = NaN"
| "js_mul _ NaN = NaN"
| "js_mul (Fin a) PosInf = (if a = 0 then NaN else if 0 < a then PosInf else NegInf)"
| "js_mul (Fin a) NegInf = (if a = 0 then NaN else if 0 < a then NegInf else PosInf)"
| "js_mul PosInf (Fin b) = (if b = 0 then NaN else if 0 < b then PosInf else NegInf)"
| "js_mul NegInf (Fin b) = (if b = 0 then NaN else if 0 < b then NegInf else PosInf)"
| "js_mul PosInf PosInf = PosInf"
| "js_mul NegInf NegInf = PosInf"
| "js_mul PosInf NegInf = NegInf"
| "js_mul NegInf PosInf = NegInf"

fun js_div :: "number \<Rightarrow> number \<Rightarrow> number" where
  "js_div (Fin a) (Fin b) =
     (if b \<noteq> 0 then Fin (a / b)
      else if a = 0 then NaN else if 0 < a then PosInf else NegInf)"
| "js_div NaN _ = NaN"
| "js_div _ NaN = NaN"
| "js_div (Fin a) PosInf = Fin 0"
| "js_div (Fin a) NegInf = Fin 0"
| "js_div PosInf (Fin b) = (if 0 \<le> b then PosInf else NegInf)"
| "js_div NegInf (Fin b) = (if 0 \<le> b then NegInf else PosInf)"
| "js_div _ _ = NaN"

text \<open>The comparison \<^verbatim>\<open>a <= b\<close>: false as soon as an operand is \<^verbatim>\<open>NaN\<close>.\<close>

fun js_le :: "number \<Rightarrow> number \<Rightarrow> bool" where
  "js_le (Fin a) (Fin b) = (a \<le> b)"
| "js_le NaN _ = False"
| "js_le _ NaN = False"
| "js_le NegInf _ = True"
| "js_le _ PosInf = True"
| "js_le _ _ = False"

section \<open>Coordinate Mapper\<close>

text \<open>
  \<^verbatim>\<open>calculateCoordinates(index, gridSize)\<close> reads the global \<^verbatim>\<open>voxelsPerUnit\<close>;
  here it is the first argument.
\<close>

definition calculateCoordinates :: "real \<Rightarrow> number \<Rightarrow> number \<Rightarrow> number" where
  "calculateCoordinates vpu index gridSize =
     (let voxelSize = js_div (Fin 1) (Fin vpu);
          halfGridSize = js_div gridSize (Fin 2);
          halfVoxelSize = js_div voxelSize (Fin 2)
      in js_add (js_mul (js_sub index halfGridSize) voxelSize) halfVoxelSize)"

section \<open>The Coordinate Mapper in binary64\<close>

text \<open>
  A JavaScript number is a binary64 floating-point number, and each arithmetic operation
  returns its exact result rounded to the nearest binary64 number, to the one with the
  even significand when two are equally near. The statements that compare the
  coordinates of different indices depend on this rounding, so the Coordinate Mapper is
  given a second time, with every operation rounded as the code computes it.

  The exponent of a positive number \<open>x\<close> is the integer \<open>e\<close> with
  \<open>2 ^ e \<le> x < 2 ^ (e + 1)\<close>.
\<close>

function expo :: "real \<Rightarrow> int" where
  "expo x =
     (if x \<le> 0 then 0
      else if x < 1 then expo (2 * x) - 1
      else if 2 \<le> x then expo (x / 2) + 1
      else 0)"
  by pat_completeness auto
termination
proof (relation "measure (\<lambda>x. nat \<bar>\<lfloor>log 2 x\<rfloor>\<bar>)")
  show "wf (measure (\<lambda>x. nat \<bar>\<lfloor>log 2 x\<rfloor>\<bar>))" by simp
next
  fix x :: real
  assume "\<not> x \<le> 0" "x < 1"
  then have pos: "0 < x" and neg: "log 2 x < 0" by simp_all
  from pos have "log 2 (2 * x) = 1 + log 2 x" by (simp add: log_mult)
  then have "\<lfloor>log 2 (2 * x)\<rfloor> = 1 + \<lfloor>log 2 x\<rfloor>" by simp
  moreover from neg have "\<lfloor>log 2 x\<rfloor> < 0" by linarith
  ultimately have "nat \<bar>\<lfloor>log 2 (2 * x)\<rfloor>\<bar> < nat \<bar>\<lfloor>log 2 x\<rfloor>\<bar>" by linarith
  then show "(2 * x, x) \<in> measure (\<lambda>x. nat \<bar>\<lfloor>log 2 x\<rfloor>\<bar>)" by simp
next
  fix x :: real
  assume "\<not> x \<le> 0" "\<not> x < 1" "2 \<le> x"
  then have pos: "0 < x" and big: "1 \<le> log 2 x" by (simp_all add: le_log_iff)
  from pos have "log 2 (x / 2) = log 2 x - 1" by (simp add: log_divide)
  then have "\<lfloor>log 2 (x / 2)\<rfloor> = \<lfloor>log 2 x\<rfloor> - 1" by simp
  moreover from big have "1 \<le> \<lfloor>log 2 x\<rfloor>" by linarith
  ultimately have "nat \<bar>\<lfloor>log 2 (x / 2)\<rfloor>\<bar> < nat \<bar>\<lfloor>log 2 x\<rfloor>\<bar>" by linarith
  then show "(x / 2, x) \<in> measure (\<lambda>x. nat \<bar>\<lfloor>log 2 x\<rfloor>\<bar>)" by simp
qed

declare expo.simps [simp del]

text \<open>Rounding to the nearest integer, a tie to the even one.\<close>

definition round_even :: "real \<Rightarrow> int" where
  "round_even r =
     (let f = \<lfloor>r\<rfloor> in
      if r - of_int f < 1 / 2 then f
      else if 1 / 2 < r - of_int f then f + 1
      else if even f then f else f + 1)"

text \<open>
  Rounding to binary64: a significand of 53 bits, so the result is a multiple of
  \<open>2 ^ (e - 52)\<close>, of \<open>2 ^ - 1074\<close> for a subnormal number; a result of magnitude
  \<open>2 ^ 1024\<close> or more is an infinity.
\<close>

definition round64 :: "real \<Rightarrow> number" where
  "round64 x =
     (let q = max (expo \<bar>x\<bar> - 52) (- 1074);
          y = of_int (round_even (x / 2 powi q)) * 2 powi q
      in if 2 ^ 1024 \<le> \<bar>y\<bar> then (if 0 < y then PosInf else NegInf) else Fin y)"

text \<open>The four operations on numbers; on the special values they are as before.\<close>

fun add64 :: "number \<Rightarrow> number \<Rightarrow> number" where
  "add64 (Fin a) (Fin b) = round64 (a + b)"
| "add64 a b = js_add a b"

fun sub64 :: "number \<Rightarrow> number \<Rightarrow> number" where
  "sub64 (Fin a) (Fin b) = round64 (a - b)"
| "sub64 a b = js_sub a b"

fun mul64 :: "number \<Rightarrow> number \<Rightarrow> number" where
  "mul64 (Fin a) (Fin b) = round64 (a * b)"
| "mul64 a b = js_mul a b"

fun div64 :: "number \<Rightarrow> number \<Rightarrow> number" where
  "div64 (Fin a) (Fin b) = (if b \<noteq> 0 then round64 (a / b) else js_div (Fin a) (Fin b))"
| "div64 a b = js_div a b"

text \<open>\<^verbatim>\<open>calculateCoordinates(index, gridSize)\<close> with the operations of binary64.\<close>

definition calculateCoordinates64 :: "real \<Rightarrow> number \<Rightarrow> number \<Rightarrow> number" where
  "calculateCoordinates64 vpu index gridSize =
     (let voxelSize = div64 (Fin 1) (Fin vpu);
          halfGridSize = div64 gridSize (Fin 2);
          halfVoxelSize = div64 voxelSize (Fin 2)
      in add64 (mul64 (sub64 index halfGridSize) voxelSize) halfVoxelSize)"


section \<open>The scene graph\<close>

text \<open>
  The part of three.js that the program uses. A node of the scene graph carries the fields
  the program reads: \<^verbatim>\<open>isMesh\<close>, \<^verbatim>\<open>geometry\<close>, \<^verbatim>\<open>material\<close>
  (absent, one material, or an array of materials), \<^verbatim>\<open>position\<close> and
  \<^verbatim>\<open>children\<close>. Nodes, geometries and materials are values: two of them with the
  same fields are not told apart. A loaded geometry or material is named by a number, the
  clone of a material by the material it was cloned from.
\<close>

type_synonym vector3 = "number \<times> number \<times> number"

datatype geometry = BufferGeometry nat | BoxGeometry number number number

datatype material = Material nat | MaterialClone material | MeshBasicMaterial

datatype material_slot = NoMaterial | OneMaterial material | MaterialArray "material list"

datatype object3d =
  Object3D (isMesh: bool) (geometry: "geometry option") (material: material_slot)
    (position: vector3) (children: "object3d list")

text \<open>
  The calls into three.js that read or change something outside the program's own
  variables, in the order they are made.
\<close>

datatype event =
    Raycast vector3 vector3
  | CloneMaterial material
  | SceneRemove object3d
  | DisposeGeometry geometry
  | DisposeMaterial material
  | SceneAdd object3d

datatype error = TypeError

text \<open>
  The global variables of the program that voxelization uses: \<^verbatim>\<open>scene\<close> (its list of
  children), \<^verbatim>\<open>currentObject\<close> (undefined until a model is loaded) and
  \<^verbatim>\<open>voxelsPerUnit\<close> (a finite number), together with the calls made so far.
\<close>

record world =
  scene :: "object3d list"
  currentObject :: "object3d option"
  voxelsPerUnit :: real
  trace :: "event list"

text \<open>
  Two queries are computed by three.js from the geometry of an object and are parameters
  of the model: the size of the bounding box of an object
  (\<^verbatim>\<open>new Box3().setFromObject(object).getSize(v)\<close>, which is \<^verbatim>\<open>(0, 0, 0)\<close> for an
  empty box) and the distances of the hits of a ray with an object
  (\<^verbatim>\<open>raycaster.set(origin, direction); raycaster.intersectObject(object, true)\<close>, nearest
  hit first).
\<close>

record three =
  boxSize :: "object3d \<Rightarrow> real \<times> real \<times> real"
  intersectObject :: "object3d \<Rightarrow> vector3 \<Rightarrow> vector3 \<Rightarrow> real list"

definition changeVoxelsPerUnit :: "real \<Rightarrow> world \<Rightarrow> world" where
  "changeVoxelsPerUnit size' w = w\<lparr>voxelsPerUnit := size'\<rparr>"

text \<open>\<^verbatim>\<open>scene.remove(object)\<close> takes the object out of the children, if it is there.\<close>

definition scene_remove :: "object3d \<Rightarrow> world \<Rightarrow> world" where
  "scene_remove object w =
     w\<lparr>scene := remove1 object (scene w), trace := trace w @ [SceneRemove object]\<rparr>"

definition scene_add :: "object3d \<Rightarrow> world \<Rightarrow> world" where
  "scene_add object w = w\<lparr>scene := scene w @ [object], trace := trace w @ [SceneAdd object]\<rparr>"

definition dispose_geometry :: "geometry \<Rightarrow> world \<Rightarrow> world" where
  "dispose_geometry g w = w\<lparr>trace := trace w @ [DisposeGeometry g]\<rparr>"

definition dispose_material :: "material \<Rightarrow> world \<Rightarrow> world" where
  "dispose_material m w = w\<lparr>trace := trace w @ [DisposeMaterial m]\<rparr>"

section \<open>Clearing the scene\<close>

definition clearChild :: "object3d \<Rightarrow> world \<Rightarrow> world" where
  "clearChild child w =
     (if isMesh child then
        (let w1 = scene_remove child w;
             w2 = (case geometry child of Some g \<Rightarrow> dispose_geometry g w1 | None \<Rightarrow> w1)
         in case material child of
              NoMaterial \<Rightarrow> w2
            | MaterialArray ms \<Rightarrow> fold dispose_material ms w2
            | OneMaterial m \<Rightarrow> dispose_material m w2)
      else w)"

text \<open>The loop runs over a copy of the children (\<^verbatim>\<open>scene.children.slice()\<close>).\<close>

definition clearScene :: "world \<Rightarrow> world" where
  "clearScene w = fold clearChild (scene w) w"

section \<open>Dimension Calculator\<close>

record dimensions =
  dim_x :: int
  dim_y :: int
  dim_z :: int

definition getDimensions :: "three \<Rightarrow> object3d \<Rightarrow> dimensions" where
  "getDimensions three object =
     (case boxSize three object of
        (sx, sy, sz) \<Rightarrow> \<lparr>dim_x = \<lceil>sx\<rceil>, dim_y = \<lceil>sy\<rceil>, dim_z = \<lceil>sz\<rceil>\<rparr>)"

section \<open>Occupancy Sampler\<close>

text \<open>
  One of the three loops of \<^verbatim>\<open>doesVoxelIntersectObject\<close>: a ray from each corner in
  turn, stopping at the first corner whose nearest hit is within \<^verbatim>\<open>size\<close>. The result
  comes with the rays cast.
\<close>

fun castCorners ::
  "(vector3 \<Rightarrow> vector3 \<Rightarrow> real list) \<Rightarrow> vector3 list \<Rightarrow> vector3 \<Rightarrow> number \<Rightarrow> bool \<times> event list"
where
  "castCorners intersect [] direction size' = (False, [])"
| "castCorners intersect (corner # corners) direction size' =
     (case intersect corner direction of
        [] \<Rightarrow>
          (case castCorners intersect corners direction size' of
             (found, rays) \<Rightarrow> (found, Raycast corner direction # rays))
      | distance # _ \<Rightarrow>
          if js_le (Fin distance) size' then (True, [Raycast corner direction])
          else
            (case castCorners intersect corners direction size' of
               (found, rays) \<Rightarrow> (found, Raycast corner direction # rays)))"

definition doesVoxelIntersectObject ::
  "(vector3 \<Rightarrow> vector3 \<Rightarrow> real list) \<Rightarrow> number \<Rightarrow> number \<Rightarrow> number \<Rightarrow> number \<Rightarrow> bool \<times> event list"
where
  "doesVoxelIntersectObject intersect x y z size' =
     (let xVector = (Fin 1, Fin 0, Fin 0);
          yVector = (Fin 0, Fin 1, Fin 0);
          zVector = (Fin 0, Fin 0, Fin 1);
          halfSize = js_div size' (Fin 2);
          leftFaceCorners =
            [(js_sub x halfSize, js_sub y halfSize, js_sub z halfSize),
             (js_sub x halfSize, js_sub y halfSize, js_add z halfSize),
             (js_sub x halfSize, js_add y halfSize, js_sub z halfSize),
             (js_sub x halfSize, js_add y halfSize, js_add z halfSize)];
          bottomFaceCorners =
            [(js_sub x halfSize, js_sub y halfSize, js_sub z halfSize),
             (js_add x halfSize, js_sub y halfSize, js_sub z halfSize),
             (js_sub x halfSize, js_sub y halfSize, js_add z halfSize),
             (js_add x halfSize, js_sub y halfSize, js_add z halfSize)];
          backFaceCorners =
            [(js_sub x halfSize, js_sub y halfSize, js_sub z halfSize),
             (js_add x halfSize, js_sub y halfSize, js_sub z halfSize),
             (js_sub x halfSize, js_add y halfSize, js_sub z halfSize),
             (js_add x halfSize, js_add y halfSize, js_sub z halfSize)]
      in case castCorners intersect leftFaceCorners xVector size' of
           (True, raysX) \<Rightarrow> (True, raysX)
         | (False, raysX) \<Rightarrow>
             (case castCorners intersect bottomFaceCorners yVector size' of
                (True, raysY) \<Rightarrow> (True, raysX @ raysY)
              | (False, raysY) \<Rightarrow>
                  (case castCorners intersect backFaceCorners zVector size' of
                     (found, raysZ) \<Rightarrow> (found, raysX @ raysY @ raysZ))))"

section \<open>Loops\<close>

text \<open>
  The loop \<^verbatim>\<open>for (let i = 0; i <= n; i++)\<close>, started at \<open>i\<close>. The bound is a finite
  number, so the loop ends. In the first form each round yields an element that is
  stored at index \<open>i\<close> of a new array (an assignment at the current length of a
  JavaScript array appends), together with the calls the round made. In the second form
  each round changes a state or raises an error, which ends the loop.
\<close>

function for_collect :: "real \<Rightarrow> nat \<Rightarrow> (nat \<Rightarrow> 'a \<times> event list) \<Rightarrow> 'a list \<times> event list" where
  "for_collect n i body =
     (if real i \<le> n then
        (case body i of
           (element, calls) \<Rightarrow>
             (case for_collect n (Suc i) body of
                (elements, calls') \<Rightarrow> (element # elements, calls @ calls')))
      else ([], []))"
  by pat_completeness auto
termination
  by (relation "measure (\<lambda>(n, i, body). Suc (nat \<lfloor>n\<rfloor>) - i)") (auto dest!: le_nat_floor)

function for_state :: "real \<Rightarrow> nat \<Rightarrow> (nat \<Rightarrow> 's \<Rightarrow> error + 's) \<Rightarrow> 's \<Rightarrow> error + 's" where
  "for_state n i body s =
     (if real i \<le> n then
        (case body i s of
           Inl e \<Rightarrow> Inl e
         | Inr s' \<Rightarrow> for_state n (Suc i) body s')
      else Inr s)"
  by pat_completeness auto
termination
  by (relation "measure (\<lambda>(n, i, body, s). Suc (nat \<lfloor>n\<rfloor>) - i)") (auto dest!: le_nat_floor)

declare for_collect.simps [simp del]
declare for_state.simps [simp del]

section \<open>Grid Builder\<close>

record cell =
  cell_value :: bool
  cell_x :: number
  cell_y :: number
  cell_z :: number

type_synonym grid = "cell list list list"

definition calculateGrid ::
  "(vector3 \<Rightarrow> vector3 \<Rightarrow> real list) \<Rightarrow> real \<Rightarrow> real \<Rightarrow> real \<Rightarrow> real \<Rightarrow> grid \<times> event list"
where
  "calculateGrid intersect vpu sizeX sizeY sizeZ =
     for_collect sizeX 0 (\<lambda>i.
       for_collect sizeY 0 (\<lambda>j.
         for_collect sizeZ 0 (\<lambda>k.
           (let x = calculateCoordinates vpu (Fin (real i)) (Fin sizeX);
                y = calculateCoordinates vpu (Fin (real j)) (Fin sizeY);
                z = calculateCoordinates vpu (Fin (real k)) (Fin sizeZ)
            in case doesVoxelIntersectObject intersect x y z
                      (js_div (Fin 1) (Fin vpu)) of
                 (v, rays) \<Rightarrow>
                   (\<lparr>cell_value = v, cell_x = x, cell_y = y, cell_z = z\<rparr>, rays)))))"

section \<open>Voxel Renderer\<close>

text \<open>
  \<^verbatim>\<open>grid[i][j][k]\<close>: reading a property of \<^verbatim>\<open>undefined\<close> raises a TypeError, so an
  index out of range at any of the three levels ends \<^verbatim>\<open>grid[i][j][k].value\<close> with
  that error.
\<close>

definition grid_at :: "grid \<Rightarrow> nat \<Rightarrow> nat \<Rightarrow> nat \<Rightarrow> error + cell" where
  "grid_at grid i j k =
     (if i < length grid then
        if j < length (grid ! i) then
          if k < length (grid ! i ! j) then Inr (grid ! i ! j ! k) else Inl TypeError
        else Inl TypeError
      else Inl TypeError)"

text \<open>
  \<^verbatim>\<open>new THREE.Mesh(geometry, material)\<close>: a mesh at the origin without children; when
  the material is \<^verbatim>\<open>undefined\<close> the constructor makes a \<^verbatim>\<open>MeshBasicMaterial\<close>.
\<close>

definition newMesh :: "geometry \<Rightarrow> material option \<Rightarrow> object3d" where
  "newMesh g m =
     Object3D True (Some g)
       (OneMaterial (case m of Some m' \<Rightarrow> m' | None \<Rightarrow> MeshBasicMaterial))
       (Fin 0, Fin 0, Fin 0) []"

definition position_set :: "vector3 \<Rightarrow> object3d \<Rightarrow> object3d" where
  "position_set p object =
     Object3D (isMesh object) (geometry object) (material object) p (children object)"

text \<open>
  The body of the innermost loop of \<^verbatim>\<open>drawGrid\<close>. The scene holds a reference to the
  voxel, so the position set after \<^verbatim>\<open>scene.add(voxel)\<close> is the position of the child.
\<close>

definition drawCell ::
  "real \<Rightarrow> grid \<Rightarrow> material option \<Rightarrow> nat \<Rightarrow> nat \<Rightarrow> nat \<Rightarrow> world \<Rightarrow> error + world"
where
  "drawCell vpu grid material' i j k w =
     (case grid_at grid i j k of
        Inl e \<Rightarrow> Inl e
      | Inr c \<Rightarrow>
          if cell_value c then
            (let edge = js_div (Fin 1) (Fin vpu);
                 geometry' = BoxGeometry edge edge edge;
                 voxel = newMesh geometry' material'
             in Inr (scene_add (position_set (cell_x c, cell_y c, cell_z c) voxel) w))
          else Inr w)"

definition drawGrid ::
  "real \<Rightarrow> real \<Rightarrow> real \<Rightarrow> real \<Rightarrow> grid \<Rightarrow> material option \<Rightarrow> world \<Rightarrow> error + world"
where
  "drawGrid vpu sizeX sizeY sizeZ grid material' w =
     for_state sizeX 0 (\<lambda>i.
       for_state sizeY 0 (\<lambda>j.
         for_state sizeZ 0 (\<lambda>k. drawCell vpu grid material' i j k))) w"

section \<open>The voxelize pass\<close>

text \<open>\<^verbatim>\<open>object.traverse(callback)\<close> visits the object, then each child's subtree in turn.\<close>

fun traverse :: "object3d \<Rightarrow> object3d list" where
  "traverse (Object3D m g mt p cs) = Object3D m g mt p cs # concat (map traverse cs)"

text \<open>
  The callback of the traversal in \<^verbatim>\<open>voxelize\<close>, on the variable \<^verbatim>\<open>material\<close> and
  the world. An array of materials is truthy and has no \<^verbatim>\<open>clone\<close> method, so the call
  raises a TypeError.
\<close>

definition captureMaterial ::
  "object3d \<Rightarrow> material option \<times> world \<Rightarrow> error + material option \<times> world"
where
  "captureMaterial child s =
     (case s of
        (material', w) \<Rightarrow>
          if isMesh child \<and> material child \<noteq> NoMaterial then
            (case material child of
               OneMaterial m \<Rightarrow>
                 Inr (Some (MaterialClone m), w\<lparr>trace := trace w @ [CloneMaterial m]\<rparr>)
             | _ \<Rightarrow> Inl TypeError)
          else Inr (material', w))"

fun for_each :: "('a \<Rightarrow> 's \<Rightarrow> error + 's) \<Rightarrow> 'a list \<Rightarrow> 's \<Rightarrow> error + 's" where
  "for_each body [] s = Inr s"
| "for_each body (x # xs) s =
     (case body x s of Inl e \<Rightarrow> Inl e | Inr s' \<Rightarrow> for_each body xs s')"

text \<open>
  \<^verbatim>\<open>voxelize()\<close>. Without a loaded object the first statement raises a TypeError
  (\<^verbatim>\<open>setFromObject(undefined)\<close>); with one, the test \<^verbatim>\<open>if (currentObject)\<close> before
  the removal holds.
\<close>

definition voxelize :: "three \<Rightarrow> world \<Rightarrow> error + world" where
  "voxelize three w =
     (case currentObject w of
        None \<Rightarrow> Inl TypeError
      | Some object \<Rightarrow>
          (let dimensions = getDimensions three object;
               sizeX = real_of_int (dim_x dimensions) * voxelsPerUnit w;
               sizeY = real_of_int (dim_y dimensions) * voxelsPerUnit w;
               sizeZ = real_of_int (dim_z dimensions) * voxelsPerUnit w
           in case calculateGrid (intersectObject three object) (voxelsPerUnit w)
                     sizeX sizeY sizeZ of
                (grid, rays) \<Rightarrow>
                  (case for_each captureMaterial (traverse object)
                          (None, w\<lparr>trace := trace w @ rays\<rparr>) of
                     Inl e \<Rightarrow> Inl e
                   | Inr (material', w1) \<Rightarrow>
                       drawGrid (voxelsPerUnit w1) sizeX sizeY sizeZ grid material'
                         (clearScene (scene_remove object w1)))))"

section \<open>Notions used in the statements\<close>

text \<open>The number of rounds of the loop \<^verbatim>\<open>for (let i = 0; i <= n; i++)\<close>.\<close>

definition rounds :: "real \<Rightarrow> nat" where
  "rounds n = (if 0 \<le> n then Suc (nat \<lfloor>n\<rfloor>) else 0)"

text \<open>Adding a list of objects to the scene, one \<^verbatim>\<open>scene.add\<close> after the other.\<close>

definition add_all :: "object3d list \<Rightarrow> world \<Rightarrow> world" where
  "add_all objects w = w\<lparr>scene := scene w @ objects, trace := trace w @ map SceneAdd objects\<rparr>"

text \<open>
  The twelve rays as the specification describes them: from each of the four corners of
  the left face (the plane \<open>x - size / 2\<close>) in the direction \<open>+X\<close>, from each of the
  four corners of the bottom face (the plane \<open>y - size / 2\<close>) in the direction \<open>+Y\<close>,
  and from each of the four corners of the back face (the plane \<open>z - size / 2\<close>) in the
  direction \<open>+Z\<close>.
\<close>

definition spec_rays :: "number \<Rightarrow> number \<Rightarrow> number \<Rightarrow> number \<Rightarrow> (vector3 \<times> vector3) list" where
  "spec_rays x y z size' =
     (let h = js_div size' (Fin 2);
          lo = (\<lambda>c. js_sub c h);
          hi = (\<lambda>c. js_add c h)
      in [((lo x, y', z'), (Fin 1, Fin 0, Fin 0)). y' \<leftarrow> [lo y, hi y], z' \<leftarrow> [lo z, hi z]] @
         [((x', lo y, z'), (Fin 0, Fin 1, Fin 0)). x' \<leftarrow> [lo x, hi x], z' \<leftarrow> [lo z, hi z]] @
         [((x', y', lo z), (Fin 0, Fin 0, Fin 1)). x' \<leftarrow> [lo x, hi x], y' \<leftarrow> [lo y, hi y]])"

text \<open>
  The cell that the specification describes for an index triple: its coordinates are the
  Coordinate Mapper's for each axis, its occupancy flag is the Occupancy Sampler's result
  at these coordinates with the cell size \<open>1 / density\<close>.
\<close>

definition spec_cell ::
  "(vector3 \<Rightarrow> vector3 \<Rightarrow> real list) \<Rightarrow> real \<Rightarrow> real \<Rightarrow> real \<Rightarrow> real \<Rightarrow> nat \<Rightarrow> nat \<Rightarrow> nat \<Rightarrow> cell"
where
  "spec_cell intersect vpu sizeX sizeY sizeZ i j k =
     \<lparr>cell_value =
        fst (doesVoxelIntersectObject intersect
              (calculateCoordinates vpu (Fin (real i)) (Fin sizeX))
              (calculateCoordinates vpu (Fin (real j)) (Fin sizeY))
              (calculateCoordinates vpu (Fin (real k)) (Fin sizeZ))
              (js_div (Fin 1) (Fin vpu))),
      cell_x = calculateCoordinates vpu (Fin (real i)) (Fin sizeX),
      cell_y = calculateCoordinates vpu (Fin (real j)) (Fin sizeY),
      cell_z = calculateCoordinates vpu (Fin (real k)) (Fin sizeZ)\<rparr>"

text \<open>
  An example of the ray query: the surface of the cube of edge 1 centered at the origin,
  for rays along an axis. A ray whose line meets the cube hits the two faces across its
  axis, those behind its origin left out.
\<close>

definition cube_hits :: "vector3 \<Rightarrow> vector3 \<Rightarrow> real list" where
  "cube_hits origin direction =
     (case origin of
        (Fin ox, Fin oy, Fin oz) \<Rightarrow>
          (let (a, u, v) =
                 (if direction = (Fin 1, Fin 0, Fin 0) then (ox, oy, oz)
                  else if direction = (Fin 0, Fin 1, Fin 0) then (oy, ox, oz)
                  else (oz, ox, oy))
           in if \<bar>u\<bar> \<le> 1 / 2 \<and> \<bar>v\<bar> \<le> 1 / 2
              then filter (\<lambda>t. 0 \<le> t) [- 1 / 2 - a, 1 / 2 - a] else [])
      | _ \<Rightarrow> [])"

text \<open>
  The mesh that \<^verbatim>\<open>drawGrid\<close> makes for a cell: a box of edge \<^verbatim>\<open>1 / voxelsPerUnit\<close>
  with the given material, or a new basic material when none is given, at the
  coordinates of the cell.
\<close>

definition voxel_of :: "real \<Rightarrow> material option \<Rightarrow> cell \<Rightarrow> object3d" where
  "voxel_of vpu material' c =
     Object3D True
       (Some (BoxGeometry (js_div (Fin 1) (Fin vpu)) (js_div (Fin 1) (Fin vpu))
          (js_div (Fin 1) (Fin vpu))))
       (OneMaterial (case material' of Some m \<Rightarrow> m | None \<Rightarrow> MeshBasicMaterial))
       (cell_x c, cell_y c, cell_z c) []"


text \<open>
  The calls that \<^verbatim>\<open>clearScene\<close> makes for a mesh among the children of the scene:
  its removal, then the disposal of its geometry and of its material or materials.
\<close>

definition child_events :: "object3d \<Rightarrow> event list" where
  "child_events child =
     SceneRemove child #
     (case geometry child of Some g \<Rightarrow> [DisposeGeometry g] | None \<Rightarrow> []) @
     (case material child of
        NoMaterial \<Rightarrow> []
      | OneMaterial m \<Rightarrow> [DisposeMaterial m]
      | MaterialArray ms \<Rightarrow> map DisposeMaterial ms)"

text \<open>
  The materials cloned by the traversal of \<^verbatim>\<open>voxelize\<close>, in order, and the value of
  the variable \<^verbatim>\<open>material\<close> after it: the clone of the last one. The traversal
  goes through when no mesh carries an array of materials.
\<close>

definition cloned :: "object3d list \<Rightarrow> material list" where
  "cloned nodes =
     concat (map (\<lambda>child. case material child of
                             OneMaterial m \<Rightarrow> if isMesh child then [m] else []
                           | _ \<Rightarrow> []) nodes)"

definition captured :: "object3d list \<Rightarrow> material option" where
  "captured nodes = (if cloned nodes = [] then None else Some (MaterialClone (last (cloned nodes))))"

definition array_free :: "object3d list \<Rightarrow> bool" where
  "array_free nodes =
     list_all (\<lambda>child. case material child of MaterialArray ms \<Rightarrow> \<not> isMesh child | _ \<Rightarrow> True) nodes"

text \<open>
  The grid that a \<^verbatim>\<open>voxelize\<close> pass computes for the current object, with the rays
  cast for it, and the voxels that the pass draws.
\<close>

definition grid_of :: "three \<Rightarrow> world \<Rightarrow> object3d \<Rightarrow> grid \<times> event list" where
  "grid_of three w object =
     calculateGrid (intersectObject three object) (voxelsPerUnit w)
       (real_of_int (dim_x (getDimensions three object)) * voxelsPerUnit w)
       (real_of_int (dim_y (getDimensions three object)) * voxelsPerUnit w)
       (real_of_int (dim_z (getDimensions three object)) * voxelsPerUnit w)"

definition voxels_of :: "three \<Rightarrow> world \<Rightarrow> object3d \<Rightarrow> object3d list" where
  "voxels_of three w object =
     map (voxel_of (voxelsPerUnit w) (captured (traverse object)))
       (filter cell_value (concat (concat (fst (grid_of three w object)))))"

text \<open>
  Examples. A loaded model is a group that holds a mesh; the scene holds the light and the
  model; the model is the cube of edge 1 at the origin. The second model is a flat square
  plate of edge 1 in the plane \<open>y = 0\<close>: only rays along \<open>+Y\<close> from below or on the
  plate hit it, and its bounding box has the height 0.
\<close>

definition example_light :: object3d where
  "example_light = Object3D False None NoMaterial (Fin 0, Fin 20, Fin 10) []"

definition example_object :: object3d where
  "example_object =
     Object3D False None NoMaterial (Fin 0, Fin 0, Fin 0)
       [Object3D True (Some (BufferGeometry 1)) (OneMaterial (Material 1))
          (Fin 0, Fin 0, Fin 0) []]"

definition example_world :: world where
  "example_world =
     \<lparr>scene = [example_light, example_object], currentObject = Some example_object,
      voxelsPerUnit = 1, trace = []\<rparr>"

definition cube_three :: three where
  "cube_three = \<lparr>boxSize = (\<lambda>object. (1, 1, 1)), intersectObject = (\<lambda>object. cube_hits)\<rparr>"

definition plate_hits :: "vector3 \<Rightarrow> vector3 \<Rightarrow> real list" where
  "plate_hits origin direction =
     (case origin of
        (Fin ox, Fin oy, Fin oz) \<Rightarrow>
          if direction = (Fin 0, Fin 1, Fin 0) \<and> \<bar>ox\<bar> \<le> 1 / 2 \<and> \<bar>oz\<bar> \<le> 1 / 2 \<and> oy \<le> 0
          then [- oy] else []
      | _ \<Rightarrow> [])"

definition plate_three :: three where
  "plate_three = \<lparr>boxSize = (\<lambda>object. (1, 0, 1)), intersectObject = (\<lambda>object. plate_hits)\<rparr>"

section \<open>Properties of the Coordinate Mapper\<close>




text \<open>
  Rounding to binary64. The exponent is the one described, the rounding to an integer is
  off by at most a half, so a number of magnitude up to \<open>2 ^ 1000\<close> is rounded to a
  finite number with a relative error of at most \<open>2 ^ - 53\<close>, or an error of at most
  \<open>2 ^ - 1075\<close> for a subnormal number.
\<close>

lemma expo_bounds:
  "0 < x \<Longrightarrow> 2 powi expo x \<le> x \<and> x < 2 powi (expo x + 1)"
proof (induction x rule: expo.induct)
  case (1 x)
  show ?case
  proof (cases "x < 1")
    case True
    with "1.prems" have e: "expo x = expo (2 * x) - 1" by (subst expo.simps) simp
    from "1.prems" True have "2 powi expo (2 * x) \<le> 2 * x \<and> 2 * x < 2 powi (expo (2 * x) + 1)"
      by (intro "1.IH"(1)) simp_all
    then show ?thesis
      by (simp add: e power_int_diff power_int_add)
  next
    case False
    show ?thesis
    proof (cases "2 \<le> x")
      case True
      with "1.prems" False have e: "expo x = expo (x / 2) + 1" by (subst expo.simps) simp
      from "1.prems" False True
      have "2 powi expo (x / 2) \<le> x / 2 \<and> x / 2 < 2 powi (expo (x / 2) + 1)"
        by (intro "1.IH"(2)) simp_all
      then show ?thesis
        by (simp add: e power_int_add)
    next
      case n: False
      with "1.prems" False have "expo x = 0" by (subst expo.simps) simp
      with False n show ?thesis by simp
    qed
  qed
qed

lemma round_even_error: "\<bar>real_of_int (round_even r) - r\<bar> \<le> 1 / 2"
proof -
  have "real_of_int \<lfloor>r\<rfloor> \<le> r" "r < real_of_int \<lfloor>r\<rfloor> + 1" by linarith+
  then show ?thesis by (auto simp: round_even_def Let_def)
qed

lemma round64_error:
  assumes "\<bar>x\<bar> \<le> 2 ^ 1000"
  shows "\<exists>y. round64 x = Fin y \<and> \<bar>y - x\<bar> \<le> max (\<bar>x\<bar> * 2 powi (- 53)) (2 powi (- 1075))"
proof (cases "x = 0")
  case True
  then have "round64 x = Fin 0" by (simp add: round64_def round_even_def Let_def)
  with True show ?thesis by simp
next
  case nz: False
  define q where "q = max (expo \<bar>x\<bar> - 52) (- 1074)"
  define P :: real where "P = 2 powi q"
  define y where "y = real_of_int (round_even (x / P)) * P"
  have P: "0 < P" by (simp add: P_def)
  have "\<bar>y - x\<bar> = \<bar>real_of_int (round_even (x / P)) - x / P\<bar> * P"
  proof -
    have "y - x = (real_of_int (round_even (x / P)) - x / P) * P"
      using P by (simp add: y_def field_simps)
    then show ?thesis using P by (simp add: abs_mult)
  qed
  also have "\<dots> \<le> 1 / 2 * P"
    using P round_even_error [of "x / P"] by (intro mult_right_mono) simp_all
  finally have err: "\<bar>y - x\<bar> \<le> P / 2" by simp
  have half: "P / 2 \<le> max (\<bar>x\<bar> * 2 powi (- 53)) (2 powi (- 1075))"
  proof (cases "expo \<bar>x\<bar> - 52 \<le> - 1074")
    case True
    then have "q = - 1074" by (simp add: q_def)
    then have "P / 2 = 2 powi (- 1075)" by (simp add: P_def)
    then show ?thesis by simp
  next
    case False
    then have q: "q = expo \<bar>x\<bar> - 52" by (simp add: q_def)
    from nz have "2 powi expo \<bar>x\<bar> \<le> \<bar>x\<bar>" using expo_bounds [of "\<bar>x\<bar>"] by simp
    moreover have "P / 2 = 2 powi expo \<bar>x\<bar> * 2 powi (- 53)"
      by (simp add: P_def q power_int_diff)
    ultimately have "P / 2 \<le> \<bar>x\<bar> * 2 powi (- 53)"
      by (simp add: mult_right_mono)
    then show ?thesis by simp
  qed
  have m: "max (\<bar>x\<bar> * 2 powi (- 53)) (2 powi (- 1075)) \<le> (2::real) ^ 1000"
  proof -
    have "\<bar>x\<bar> * 2 powi (- 53) \<le> \<bar>x\<bar> * 1" by (intro mult_left_mono) simp_all
    with assms have "\<bar>x\<bar> * 2 powi (- 53) \<le> 2 ^ 1000" by simp
    moreover have "(2::real) powi (- 1075) \<le> 2 ^ 1000" by simp
    ultimately show ?thesis by simp
  qed
  have "\<bar>y\<bar> \<le> \<bar>x\<bar> + \<bar>y - x\<bar>" by simp
  with err half m assms have "\<bar>y\<bar> \<le> 2 ^ 1000 + 2 ^ 1000" by linarith
  also have "\<dots> < (2::real) ^ 1024" by simp
  finally have "\<not> 2 ^ 1024 \<le> \<bar>y\<bar>" by simp
  then have "round64 x = Fin y"
    by (simp add: round64_def Let_def y_def P_def q_def)
  with err half show ?thesis by (intro exI [of _ y]) simp
qed

lemma accuracy_arith:
  fixes u \<eta> w v h k p hv c I g :: real
  assumes u: "0 \<le> u" "u \<le> 1 / 8" and eta: "0 \<le> \<eta>" "\<eta> \<le> u * w / 4" "\<eta> \<le> u" and w: "0 < w"
    and I: "0 \<le> I" "I \<le> g"
    and v: "\<bar>v - w\<bar> \<le> u * w"
    and h: "\<bar>h - g / 2\<bar> \<le> u * (g / 2) + \<eta>"
    and k: "\<bar>k - (I - h)\<bar> \<le> u * \<bar>I - h\<bar> + \<eta>"
    and p: "\<bar>p - k * v\<bar> \<le> u * \<bar>k * v\<bar> + \<eta>"
    and hv: "\<bar>hv - v / 2\<bar> \<le> u * (v / 2) + \<eta>"
    and c: "\<bar>c - (p + hv)\<bar> \<le> u * \<bar>p + hv\<bar> + \<eta>"
  shows "\<bar>c - ((I - g / 2) * w + w / 2)\<bar> \<le> 13 * (u * (g + 1) * w)"
    and "\<bar>k * v\<bar> \<le> 2 * ((g + 1) * w)" and "\<bar>I - h\<bar> \<le> g + 1" and "\<bar>p + hv\<bar> \<le> 4 * ((g + 1) * w)"
    and "0 \<le> v" and "v \<le> 2 * w"
proof -
  define G where "G = g + 1"
  define A where "A = u * w"
  define B where "B = u * G * w"
  define Gw where "Gw = G * w"
  from I have g0: "0 \<le> g" by simp
  then have G1: "1 \<le> G" by (simp add: G_def)
  have A0: "0 \<le> A" using u w by (simp add: A_def)
  have AB: "A \<le> B"
  proof -
    have "u * 1 * w \<le> u * G * w" using u w G1 by (intro mult_right_mono mult_left_mono) simp_all
    then show ?thesis by (simp add: A_def B_def)
  qed
  have Aw: "A \<le> w / 8"
  proof -
    have "u * w \<le> 1 / 8 * w" using u w by (intro mult_right_mono) simp_all
    then show ?thesis by (simp add: A_def)
  qed
  have BG: "B \<le> Gw / 8"
  proof -
    have "u * (G * w) \<le> 1 / 8 * (G * w)" using u w G1 by (intro mult_right_mono) simp_all
    then show ?thesis by (simp add: B_def Gw_def mult.assoc)
  qed
  have wG: "w \<le> Gw"
  proof -
    have "1 * w \<le> G * w" using w G1 by (intro mult_right_mono) simp_all
    then show ?thesis by (simp add: Gw_def)
  qed
  have etaA: "\<eta> \<le> A / 4" using eta by (simp add: A_def)
  have uG: "u * G \<le> G / 8"
  proof -
    have "u * G \<le> 1 / 8 * G" using u G1 by (intro mult_right_mono) simp_all
    then show ?thesis by simp
  qed
  have u_uG: "u \<le> u * G"
  proof -
    have "u * 1 \<le> u * G" using u G1 by (intro mult_left_mono) simp_all
    then show ?thesis by simp
  qed
  have ug: "u * (g / 2) + u \<le> u * G"
  proof -
    have "u * (g / 2) \<le> u * g" using u g0 by (intro mult_left_mono) simp_all
    moreover have "u * G = u * g + u" by (simp add: G_def algebra_simps)
    ultimately show ?thesis by linarith
  qed
  \<comment> \<open>the voxel size\<close>
  from v A0 Aw w show v0: "0 \<le> v" and v2: "v \<le> 2 * w" unfolding A_def [symmetric] by linarith+
  \<comment> \<open>half the grid size\<close>
  have eh: "\<bar>h - g / 2\<bar> \<le> u * G" using h eta ug by linarith
  \<comment> \<open>the index minus half the grid size\<close>
  have Gd: "G = g + 1" by (simp add: G_def)
  have Ih: "\<bar>I - h\<bar> \<le> G" using eh uG I Gd by linarith
  then show "\<bar>I - h\<bar> \<le> g + 1" by (simp add: G_def)
  have "u * \<bar>I - h\<bar> \<le> u * G" using u Ih by (intro mult_left_mono) simp_all
  with k eta u_uG have ek: "\<bar>k - (I - h)\<bar> \<le> 2 * (u * G)" by linarith
  with eh have Ek: "\<bar>k - (I - g / 2)\<bar> \<le> 3 * (u * G)" by linarith
  with uG I Gd have kG: "\<bar>k\<bar> \<le> G" by linarith
  \<comment> \<open>the product\<close>
  have kv: "\<bar>k * v\<bar> \<le> 2 * Gw"
  proof -
    have "\<bar>k\<bar> * \<bar>v\<bar> \<le> G * (2 * w)" using kG v0 v2 G1 by (intro mult_mono) simp_all
    then show ?thesis by (simp add: abs_mult Gw_def)
  qed
  then show "\<bar>k * v\<bar> \<le> 2 * ((g + 1) * w)" by (simp add: Gw_def G_def)
  have "u * \<bar>k * v\<bar> \<le> u * (2 * Gw)" using u kv by (intro mult_left_mono) simp_all
  also have "u * (2 * Gw) = 2 * B" by (simp add: B_def Gw_def)
  finally have ep: "\<bar>p - k * v\<bar> \<le> 2 * B + \<eta>" using p by linarith
  \<comment> \<open>half the voxel size\<close>
  have "u * (v / 2) \<le> u * w" using u v2 by (intro mult_left_mono) simp_all
  with hv have ehv: "\<bar>hv - v / 2\<bar> \<le> A + \<eta>" by (simp add: A_def)
  \<comment> \<open>the sum\<close>
  have s: "\<bar>p + hv\<bar> \<le> 4 * Gw"
    using kv ep ehv v0 v2 BG Aw wG etaA A0 by linarith
  then show "\<bar>p + hv\<bar> \<le> 4 * ((g + 1) * w)" by (simp add: Gw_def G_def)
  have "u * \<bar>p + hv\<bar> \<le> u * (4 * Gw)" using u s by (intro mult_left_mono) simp_all
  also have "u * (4 * Gw) = 4 * B" by (simp add: B_def Gw_def)
  finally have ec: "\<bar>c - (p + hv)\<bar> \<le> 4 * B + \<eta>" using c by linarith
  \<comment> \<open>the exact product\<close>
  define KV where "KV = k * v"
  define T where "T = (I - g / 2) * w"
  define X where "X = k * (v - w)"
  define Y where "Y = (k - (I - g / 2)) * w"
  have kvw: "\<bar>KV - T\<bar> \<le> 4 * B"
  proof -
    have e: "KV - T = X + Y"
      by (simp add: KV_def T_def X_def Y_def algebra_simps)
    have "\<bar>X\<bar> \<le> G * (u * w)"
      unfolding X_def abs_mult using kG v G1 by (intro mult_mono) simp_all
    also have "G * (u * w) = B" by (simp add: B_def)
    finally have X: "\<bar>X\<bar> \<le> B" .
    have "\<bar>Y\<bar> \<le> 3 * (u * G) * w"
      unfolding Y_def abs_mult using Ek w by (intro mult_mono) simp_all
    also have "3 * (u * G) * w = 3 * B" by (simp add: B_def)
    finally have Y: "\<bar>Y\<bar> \<le> 3 * B" .
    from e X Y show ?thesis by linarith
  qed
  have vA: "\<bar>v - w\<bar> \<le> A" using v by (simp add: A_def)
  have ep': "\<bar>p - KV\<bar> \<le> 2 * B + \<eta>" using ep by (simp add: KV_def)
  have "\<bar>c - (T + w / 2)\<bar> \<le> 13 * B"
    using kvw ep' ehv ec vA AB etaA A0 by linarith
  then show "\<bar>c - ((I - g / 2) * w + w / 2)\<bar> \<le> 13 * (u * (g + 1) * w)"
    by (simp add: B_def G_def T_def)
qed

lemma round64_near:
  assumes "\<bar>x\<bar> \<le> 2 ^ 1000"
  shows "\<exists>y. round64 x = Fin y \<and> \<bar>y - x\<bar> \<le> 2 powi (- 53) * \<bar>x\<bar> + 2 powi (- 1075)"
proof -
  from round64_error [OF assms] obtain y where
    y: "round64 x = Fin y" "\<bar>y - x\<bar> \<le> max (\<bar>x\<bar> * 2 powi (- 53)) (2 powi (- 1075))" by blast
  have "max (\<bar>x\<bar> * 2 powi (- 53)) (2 powi (- 1075)) \<le> 2 powi (- 53) * \<bar>x\<bar> + 2 powi (- 1075)"
    by (simp add: mult.commute)
  with y show ?thesis by (intro exI [of _ y]) simp
qed

lemma coordinates64_accuracy:
  fixes d :: real and i g :: nat
  assumes d: "1 / 2 ^ 100 \<le> d" "d \<le> 2 ^ 100" and g: "g \<le> 2 ^ 30" and i: "i \<le> g"
  shows "\<exists>c. calculateCoordinates64 d (Fin (real i)) (Fin (real g)) = Fin c \<and>
             \<bar>c - ((real i - real g / 2) * (1 / d) + 1 / d / 2)\<bar> \<le>
               13 * (real g + 1) / (2 ^ 53 * d)"
proof -
  define u :: real where "u = 2 powi (- 53)"
  define \<eta> :: real where "\<eta> = 2 powi (- 1075)"
  define w where "w = 1 / d"
  have "(0::real) < 1 / 2 ^ 100" by simp
  with d(1) have dpos: "0 < d" by linarith
  have w: "0 < w" "1 / 2 ^ 100 \<le> w" "w \<le> 2 ^ 100"
  proof -
    show "0 < w" using dpos by (simp add: w_def)
    from d(2) dpos show "1 / 2 ^ 100 \<le> w" by (simp add: w_def field_simps)
    from d(1) dpos show "w \<le> 2 ^ 100" by (simp add: w_def field_simps)
  qed
  have u: "0 \<le> u" "u \<le> 1 / 8" by (simp_all add: u_def)
  have eta: "0 \<le> \<eta>" "\<eta> \<le> u" by (simp_all add: \<eta>_def u_def)
  have etaw: "\<eta> \<le> u * w / 4"
  proof -
    have "\<eta> \<le> u * (1 / 2 ^ 100) / 4" by (simp add: \<eta>_def u_def)
    also have "u * (1 / 2 ^ 100) / 4 \<le> u * w / 4"
      using u w by (intro divide_right_mono mult_left_mono) simp_all
    finally show ?thesis .
  qed
  have G: "real g + 1 \<le> 2 ^ 31"
  proof -
    from g have "real g \<le> real (2 ^ 30)" by (rule of_nat_mono)
    then show ?thesis by simp
  qed
  have I: "0 \<le> real i" "real i \<le> real g" using i by simp_all
  have Gw: "(real g + 1) * w \<le> 2 ^ 31 * 2 ^ 100"
    using G w by (intro mult_mono) simp_all
  \<comment> \<open>the voxel size\<close>
  have "\<bar>w\<bar> \<le> 2 ^ 1000" using w by simp
  from round64_error [OF this] obtain v where
    v: "round64 w = Fin v" "\<bar>v - w\<bar> \<le> max (\<bar>w\<bar> * 2 powi (- 53)) (2 powi (- 1075))" by blast
  have "0 \<le> u * w" using u w by simp
  with etaw have "\<eta> \<le> u * w" by linarith
  with v(2) w have vw: "\<bar>v - w\<bar> \<le> u * w" by (simp add: u_def \<eta>_def mult.commute)
  have "u * w \<le> 1 / 8 * w" using u w by (intro mult_right_mono) simp_all
  with vw w have v2: "0 \<le> v" "v \<le> 2 * w" by linarith+
  have d0: "0 \<le> u * (v / 2) + \<eta>" "0 \<le> u * \<bar>x\<bar> + \<eta>" for x
    using u v2 eta by simp_all
  \<comment> \<open>half the grid size\<close>
  have "\<bar>real g / 2\<bar> \<le> 2 ^ 1000" using G by simp
  from round64_near [OF this] obtain h where
    h: "round64 (real g / 2) = Fin h" "\<bar>h - real g / 2\<bar> \<le> u * (real g / 2) + \<eta>"
    by (auto simp: u_def \<eta>_def)
  \<comment> \<open>the index minus half the grid size\<close>
  have "\<bar>real i - h\<bar> \<le> real g + 1"
    using accuracy_arith(3) [of u \<eta> w "real i" "real g" v h "real i - h" "(real i - h) * v"
        "v / 2" "(real i - h) * v + v / 2"] u eta etaw w I vw h(2) d0
    by simp
  with G have "\<bar>real i - h\<bar> \<le> 2 ^ 1000" by simp
  from round64_near [OF this] obtain k where
    k: "round64 (real i - h) = Fin k" "\<bar>k - (real i - h)\<bar> \<le> u * \<bar>real i - h\<bar> + \<eta>"
    by (auto simp: u_def \<eta>_def)
  \<comment> \<open>the product\<close>
  have "\<bar>k * v\<bar> \<le> 2 * ((real g + 1) * w)"
    using accuracy_arith(2) [of u \<eta> w "real i" "real g" v h k "k * v"
        "v / 2" "k * v + v / 2"] u eta etaw w I vw h(2) k(2) d0
    by simp
  with Gw have "\<bar>k * v\<bar> \<le> 2 ^ 1000" by simp
  from round64_near [OF this] obtain p where
    p: "round64 (k * v) = Fin p" "\<bar>p - k * v\<bar> \<le> u * \<bar>k * v\<bar> + \<eta>"
    by (auto simp: u_def \<eta>_def)
  \<comment> \<open>half the voxel size\<close>
  from v2 w have "\<bar>v / 2\<bar> \<le> 2 ^ 1000" by simp
  from round64_near [OF this] v2 obtain hv where
    hv: "round64 (v / 2) = Fin hv" "\<bar>hv - v / 2\<bar> \<le> u * (v / 2) + \<eta>"
    by (auto simp: u_def \<eta>_def)
  \<comment> \<open>the sum\<close>
  have "\<bar>p + hv\<bar> \<le> 4 * ((real g + 1) * w)"
    using accuracy_arith(4) [of u \<eta> w "real i" "real g" v h k p hv "p + hv"]
      u eta etaw w I vw h(2) k(2) p(2) hv(2) d0
    by simp
  with Gw have "\<bar>p + hv\<bar> \<le> 2 ^ 1000" by simp
  from round64_near [OF this] obtain c where
    c: "round64 (p + hv) = Fin c" "\<bar>c - (p + hv)\<bar> \<le> u * \<bar>p + hv\<bar> + \<eta>"
    by (auto simp: u_def \<eta>_def)
  have "\<bar>c - ((real i - real g / 2) * w + w / 2)\<bar> \<le> 13 * (u * (real g + 1) * w)"
    using u eta(1) etaw eta(2) w(1) I vw h(2) k(2) p(2) hv(2) c(2) by (rule accuracy_arith(1))
  moreover have "13 * (u * (real g + 1) * w) = 13 * (real g + 1) / (2 ^ 53 * d)"
    by (simp add: u_def w_def power_int_minus field_simps)
  moreover have "calculateCoordinates64 d (Fin (real i)) (Fin (real g)) = Fin c"
    using dpos v(1) h(1) k(1) p(1) hv(1) c(1)
    by (simp add: calculateCoordinates64_def w_def)
  ultimately show ?thesis by (intro exI [of _ c]) (simp add: w_def)
qed

lemma rounding_margin:
  fixes d :: real and g :: nat
  assumes "0 < d" and "g \<le> 2 ^ 30"
  shows "2 * (13 * (real g + 1) / (2 ^ 53 * d)) \<le> 1 / d / 2"
proof -
  from assms(2) have "real g \<le> real (2 ^ 30)" by (rule of_nat_mono)
  then have "26 * (real g + 1) \<le> 2 ^ 53 / 2" by simp
  then have "26 * (real g + 1) / 2 ^ 53 \<le> 1 / 2" by (simp add: field_simps)
  then have "26 * (real g + 1) / 2 ^ 53 * (1 / d) \<le> 1 / 2 * (1 / d)"
    using assms(1) by (intro mult_right_mono) simp_all
  then show ?thesis by (simp add: field_simps)
qed

text \<open>
  Claim C4, as amended. For a fixed grid size of at most \<open>2 ^ 30\<close> and a fixed density
  between \<open>2 ^ - 100\<close> and \<open>2 ^ 100\<close>, the Coordinate Mapper, computed in binary64 as
  the code computes it, is strictly increasing in the index over \<open>0..gridSize\<close>, and so
  injective: cells with distinct indices along an axis have distinct coordinates on that
  axis. It is evenly spaced up to rounding: \<open>coord (i + 1) - coord i\<close> differs from
  \<open>1 / density\<close> by at most \<open>26 * (gridSize + 1) / (2 ^ 53 * density)\<close>.
\<close>

theorem coordinate_spacing64:
  fixes d :: real and i j g :: nat
  assumes "1 / 2 ^ 100 \<le> d" and "d \<le> 2 ^ 100" and "g \<le> 2 ^ 30" and "i < j" and "j \<le> g"
  shows "\<exists>c c'. calculateCoordinates64 d (Fin (real i)) (Fin (real g)) = Fin c
              \<and> calculateCoordinates64 d (Fin (real j)) (Fin (real g)) = Fin c'
              \<and> c < c'
              \<and> (j = i + 1 \<longrightarrow> \<bar>c' - c - 1 / d\<bar> \<le> 26 * (real g + 1) / (2 ^ 53 * d))"
proof -
  define E where "E = 13 * (real g + 1) / (2 ^ 53 * d)"
  define w where "w = 1 / d"
  define Ti where "Ti = (real i - real g / 2) * w + w / 2"
  define Tj where "Tj = (real j - real g / 2) * w + w / 2"
  have "(0::real) < 1 / 2 ^ 100" by simp
  with assms(1) have dpos: "0 < d" by linarith
  then have w: "0 < w" by (simp add: w_def)
  from assms have ig: "i \<le> g" by simp
  from coordinates64_accuracy [OF assms(1,2,3) ig] obtain c where
    c: "calculateCoordinates64 d (Fin (real i)) (Fin (real g)) = Fin c" "\<bar>c - Ti\<bar> \<le> E"
    by (auto simp: E_def Ti_def w_def)
  from coordinates64_accuracy [OF assms(1,2,3,5)] obtain c' where
    c': "calculateCoordinates64 d (Fin (real j)) (Fin (real g)) = Fin c'" "\<bar>c' - Tj\<bar> \<le> E"
    by (auto simp: E_def Tj_def w_def)
  have margin: "2 * E \<le> w / 2"
    using rounding_margin [OF dpos assms(3)] by (simp add: E_def w_def)
  have diff: "Tj - Ti = (real j - real i) * w"
    by (simp add: Ti_def Tj_def algebra_simps)
  from assms(4) have "1 \<le> real j - real i" by simp
  then have "1 * w \<le> (real j - real i) * w" using w by (intro mult_right_mono) simp_all
  with diff have "w \<le> Tj - Ti" by simp
  with c(2) c'(2) margin w have less: "c < c'" by linarith
  have step: "\<bar>c' - c - 1 / d\<bar> \<le> 26 * (real g + 1) / (2 ^ 53 * d)" if "j = i + 1"
  proof -
    from that diff have "Tj - Ti = w" by simp
    with c(2) c'(2) have "\<bar>c' - c - w\<bar> \<le> 2 * E" by linarith
    then show ?thesis by (simp add: E_def w_def)
  qed
  from c(1) c'(1) less step show ?thesis by blast
qed

theorem coordinate_spacing64_witness:
  "\<exists>c c'. calculateCoordinates64 6 (Fin (real 0)) (Fin (real 6)) = Fin c
         \<and> calculateCoordinates64 6 (Fin (real 1)) (Fin (real 6)) = Fin c'
         \<and> c < c'
         \<and> \<bar>c' - c - 1 / 6\<bar> \<le> 26 * (real 6 + 1) / (2 ^ 53 * 6)"
proof -
  have h: "1 / 2 ^ 100 \<le> (6::real)" "(6::real) \<le> 2 ^ 100" "(6::nat) \<le> 2 ^ 30"
    "(0::nat) < 1" "(1::nat) \<le> 6"
    by simp_all
  from coordinate_spacing64 [OF h] show ?thesis by simp
qed

text \<open>
  Claim C4 as stated has the step equal to \<open>1 / density\<close>. At the density 6 and the
  grid size 6 the step from the index 0 to the index 1, computed as the code computes it,
  is \<open>6004799503160662 / 2 ^ 55\<close>, and \<^verbatim>\<open>1 / 6\<close> is \<open>6004799503160661 / 2 ^ 55\<close>.
\<close>

theorem coordinate_spacing_rounded:
  "sub64 (calculateCoordinates64 6 (Fin 1) (Fin 6)) (calculateCoordinates64 6 (Fin 0) (Fin 6)) =
     Fin (6004799503160662 / 2 ^ 55)
   \<and> div64 (Fin 1) (Fin 6) = Fin (6004799503160661 / 2 ^ 55)
   \<and> sub64 (calculateCoordinates64 6 (Fin 1) (Fin 6)) (calculateCoordinates64 6 (Fin 0) (Fin 6)) \<noteq>
     div64 (Fin 1) (Fin 6)"
  by (simp add: calculateCoordinates64_def round64_def round_even_def expo.simps Let_def)

text \<open>
  Claim C10, as amended. For a grid size \<open>g\<close> of at most \<open>2 ^ 30\<close>, an index \<open>i\<close> of
  \<open>0..g\<close> and a density \<open>d\<close> between \<open>2 ^ - 100\<close> and \<open>2 ^ 100\<close>, the coordinates
  computed in binary64 satisfy \<open>coord i + coord (g - i) = 1 / d\<close> up to rounding: the sum
  differs from \<open>1 / d\<close> by at most \<open>26 * (g + 1) / (2 ^ 53 * d)\<close>. Hence the cell
  centers of the indices \<open>0..g\<close> are symmetric about \<open>1 / (2 * d)\<close> up to that error.
  They are not symmetric about the origin: the negation of the last center is no center.
\<close>

theorem coordinate_symmetry64:
  fixes d :: real and i g :: nat
  assumes "1 / 2 ^ 100 \<le> d" and "d \<le> 2 ^ 100" and "g \<le> 2 ^ 30" and "i \<le> g"
  shows "(\<exists>a b. calculateCoordinates64 d (Fin (real i)) (Fin (real g)) = Fin a
              \<and> calculateCoordinates64 d (Fin (real (g - i))) (Fin (real g)) = Fin b
              \<and> \<bar>a + b - 1 / d\<bar> \<le> 26 * (real g + 1) / (2 ^ 53 * d))
       \<and> (\<forall>k\<le>g. calculateCoordinates64 d (Fin (real k)) (Fin (real g)) \<noteq>
                  js_neg (calculateCoordinates64 d (Fin (real g)) (Fin (real g))))"
proof (intro conjI allI impI)
  define E where "E = 13 * (real g + 1) / (2 ^ 53 * d)"
  define w where "w = 1 / d"
  have "(0::real) < 1 / 2 ^ 100" by simp
  with assms(1) have dpos: "0 < d" by linarith
  then have w: "0 < w" by (simp add: w_def)
  have margin: "2 * E \<le> w / 2"
    using rounding_margin [OF dpos assms(3)] by (simp add: E_def w_def)
  have acc: "\<exists>c. calculateCoordinates64 d (Fin (real k)) (Fin (real g)) = Fin c \<and>
                \<bar>c - ((real k - real g / 2) * w + w / 2)\<bar> \<le> E" if "k \<le> g" for k
    using coordinates64_accuracy [OF assms(1,2,3) that] by (simp add: E_def w_def)
  show "\<exists>a b. calculateCoordinates64 d (Fin (real i)) (Fin (real g)) = Fin a
              \<and> calculateCoordinates64 d (Fin (real (g - i))) (Fin (real g)) = Fin b
              \<and> \<bar>a + b - 1 / d\<bar> \<le> 26 * (real g + 1) / (2 ^ 53 * d)"
  proof -
    define Ta where "Ta = (real i - real g / 2) * w + w / 2"
    define Tb where "Tb = (real (g - i) - real g / 2) * w + w / 2"
    from acc [OF assms(4)] obtain a where
      a: "calculateCoordinates64 d (Fin (real i)) (Fin (real g)) = Fin a" "\<bar>a - Ta\<bar> \<le> E"
      by (auto simp: Ta_def)
    have "g - i \<le> g" by simp
    from acc [OF this] obtain b where
      b: "calculateCoordinates64 d (Fin (real (g - i))) (Fin (real g)) = Fin b" "\<bar>b - Tb\<bar> \<le> E"
      by (auto simp: Tb_def)
    from assms(4) have "real (g - i) = real g - real i" by (simp add: of_nat_diff)
    then have "Ta + Tb = w" by (simp add: Ta_def Tb_def algebra_simps)
    with a(2) b(2) have "\<bar>a + b - w\<bar> \<le> 2 * E" by linarith
    then have "\<bar>a + b - 1 / d\<bar> \<le> 26 * (real g + 1) / (2 ^ 53 * d)"
      by (simp add: E_def w_def)
    with a(1) b(1) show ?thesis by blast
  qed
  show "calculateCoordinates64 d (Fin (real k)) (Fin (real g)) \<noteq>
          js_neg (calculateCoordinates64 d (Fin (real g)) (Fin (real g)))" if "k \<le> g" for k
  proof -
    define Tk where "Tk = (real k - real g / 2) * w + w / 2"
    define Tg where "Tg = (real g - real g / 2) * w + w / 2"
    from acc [OF that] obtain a where
      a: "calculateCoordinates64 d (Fin (real k)) (Fin (real g)) = Fin a" "\<bar>a - Tk\<bar> \<le> E"
      by (auto simp: Tk_def)
    from acc [of g] obtain b where
      b: "calculateCoordinates64 d (Fin (real g)) (Fin (real g)) = Fin b" "\<bar>b - Tg\<bar> \<le> E"
      by (auto simp: Tg_def)
    have "Tk + Tg = (real k + 1) * w" by (simp add: Tk_def Tg_def algebra_simps)
    moreover have "1 * w \<le> (real k + 1) * w" using w by (intro mult_right_mono) simp_all
    ultimately have "w \<le> Tk + Tg" by simp
    with a(2) b(2) margin w have "0 < a + b" by linarith
    then have "a \<noteq> - b" by linarith
    with a(1) b(1) show ?thesis by simp
  qed
qed

theorem coordinate_symmetry64_witness:
  "(\<exists>a b. calculateCoordinates64 6 (Fin (real 2)) (Fin (real 6)) = Fin a
         \<and> calculateCoordinates64 6 (Fin (real (6 - 2))) (Fin (real 6)) = Fin b
         \<and> \<bar>a + b - 1 / 6\<bar> \<le> 26 * (real 6 + 1) / (2 ^ 53 * 6))
   \<and> calculateCoordinates64 6 (Fin (real 0)) (Fin (real 6)) \<noteq>
       js_neg (calculateCoordinates64 6 (Fin (real 6)) (Fin (real 6)))"
proof -
  have h: "1 / 2 ^ 100 \<le> (6::real)" "(6::real) \<le> 2 ^ 100" "(6::nat) \<le> 2 ^ 30" "(2::nat) \<le> 6"
    by simp_all
  have k: "(0::nat) \<le> 6" by simp
  from coordinate_symmetry64 [OF h] k show ?thesis by blast
qed

text \<open>
  Claim C10 as stated has the sum equal to \<open>1 / d\<close>. At the density 6 and the grid size
  6 the sum of the coordinates of the indices 2 and 4, computed as the code computes it,
  is \<open>6004799503160662 / 2 ^ 55\<close>, and \<^verbatim>\<open>1 / 6\<close> is \<open>6004799503160661 / 2 ^ 55\<close>.
\<close>

theorem coordinate_symmetry_rounded:
  "add64 (calculateCoordinates64 6 (Fin 2) (Fin 6)) (calculateCoordinates64 6 (Fin 4) (Fin 6)) =
     Fin (6004799503160662 / 2 ^ 55)
   \<and> div64 (Fin 1) (Fin 6) = Fin (6004799503160661 / 2 ^ 55)
   \<and> add64 (calculateCoordinates64 6 (Fin 2) (Fin 6)) (calculateCoordinates64 6 (Fin 4) (Fin 6)) \<noteq>
     div64 (Fin 1) (Fin 6)"
  by (simp add: calculateCoordinates64_def round64_def round_even_def expo.simps Let_def)

section \<open>Properties of the loops\<close>

lemma rounds_iff: "real i \<le> n \<longleftrightarrow> i < rounds n"
proof (cases "0 \<le> n")
  case True
  have "real i \<le> n \<longleftrightarrow> i \<le> nat \<lfloor>n\<rfloor>"
  proof
    assume "real i \<le> n" then show "i \<le> nat \<lfloor>n\<rfloor>" by (rule le_nat_floor)
  next
    assume "i \<le> nat \<lfloor>n\<rfloor>"
    then have "real i \<le> real (nat \<lfloor>n\<rfloor>)" by simp
    also have "\<dots> \<le> n" using True by (rule of_nat_floor)
    finally show "real i \<le> n" .
  qed
  with True show ?thesis by (simp add: rounds_def less_Suc_eq_le)
next
  case False
  then have "\<not> real i \<le> n" by linarith
  with False show ?thesis by (simp add: rounds_def)
qed

lemma rounds_of_nat [simp]: "rounds (real m) = Suc m"
  by (simp add: rounds_def)

lemma rounds_nonpos: "n \<le> 0 \<Longrightarrow> rounds n \<le> 1"
  by (simp add: rounds_def)

lemma for_collect_upt:
  "for_collect n i body =
     (map (\<lambda>k. fst (body k)) [i..<rounds n], concat (map (\<lambda>k. snd (body k)) [i..<rounds n]))"
proof (induction n i body rule: for_collect.induct)
  case (1 n i body)
  show ?case
  proof (cases "real i \<le> n")
    case True
    then have lt: "i < rounds n" by (simp add: rounds_iff)
    obtain element calls where b: "body i = (element, calls)" by (cases "body i")
    from 1 [OF True b [symmetric]] True b lt show ?thesis
      by (subst for_collect.simps) (simp add: upt_conv_Cons split: prod.splits)
  next
    case False
    then have "\<not> i < rounds n" by (simp add: rounds_iff)
    with False show ?thesis by (subst for_collect.simps) simp
  qed
qed

lemma for_state_upt: "for_state n i body s = for_each body [i..<rounds n] s"
proof (induction n i body s rule: for_state.induct)
  case (1 n i body s)
  show ?case
  proof (cases "real i \<le> n")
    case True
    then have lt: "i < rounds n" by (simp add: rounds_iff)
    show ?thesis
    proof (cases "body i s")
      case (Inl e)
      with True lt show ?thesis by (subst for_state.simps) (simp add: upt_conv_Cons)
    next
      case (Inr s')
      with 1 [OF True Inr] True lt show ?thesis
        by (subst for_state.simps) (simp add: upt_conv_Cons)
    qed
  next
    case False
    then have "\<not> i < rounds n" by (simp add: rounds_iff)
    with False show ?thesis by (subst for_state.simps) simp
  qed
qed

section \<open>Properties of the Occupancy Sampler\<close>

lemma js_le_mono: "t \<le> t' \<Longrightarrow> js_le (Fin t') s \<Longrightarrow> js_le (Fin t) s"
  by (cases s) simp_all

lemma nearest_hit:
  assumes "sorted hits"
  shows "(case hits of [] \<Rightarrow> False | t # _ \<Rightarrow> js_le (Fin t) s) \<longleftrightarrow> (\<exists>t\<in>set hits. js_le (Fin t) s)"
proof (cases hits)
  case Nil
  then show ?thesis by simp
next
  case (Cons t ts)
  with assms have "\<forall>t'\<in>set ts. t \<le> t'" by simp
  then have "js_le (Fin t) s" if "t' \<in> set ts" "js_le (Fin t') s" for t'
    using that js_le_mono by blast
  with Cons show ?thesis by auto
qed

lemma castCorners_fst:
  "fst (castCorners intersect corners direction s) \<longleftrightarrow>
     (\<exists>c\<in>set corners. case intersect c direction of [] \<Rightarrow> False | t # _ \<Rightarrow> js_le (Fin t) s)"
  by (induction corners) (auto split: list.splits prod.splits)

lemma first_of_three:
  "fst (case a of
          (True, rx) \<Rightarrow> (True, rx)
        | (False, rx) \<Rightarrow>
            (case b of
               (True, ry) \<Rightarrow> (True, rx @ ry)
             | (False, ry) \<Rightarrow> (case c of (found, rz) \<Rightarrow> (found, rx @ ry @ rz)))) \<longleftrightarrow>
   fst a \<or> fst b \<or> fst c"
  by (cases a; cases b; cases c) (simp split: bool.splits)

lemma doesVoxelIntersectObject_fst:
  "fst (doesVoxelIntersectObject intersect x y z s) \<longleftrightarrow>
     (let h = js_div s (Fin 2) in
      fst (castCorners intersect
            [(js_sub x h, js_sub y h, js_sub z h), (js_sub x h, js_sub y h, js_add z h),
             (js_sub x h, js_add y h, js_sub z h), (js_sub x h, js_add y h, js_add z h)]
            (Fin 1, Fin 0, Fin 0) s) \<or>
      fst (castCorners intersect
            [(js_sub x h, js_sub y h, js_sub z h), (js_add x h, js_sub y h, js_sub z h),
             (js_sub x h, js_sub y h, js_add z h), (js_add x h, js_sub y h, js_add z h)]
            (Fin 0, Fin 1, Fin 0) s) \<or>
      fst (castCorners intersect
            [(js_sub x h, js_sub y h, js_sub z h), (js_add x h, js_sub y h, js_sub z h),
             (js_sub x h, js_add y h, js_sub z h), (js_add x h, js_add y h, js_sub z h)]
            (Fin 0, Fin 0, Fin 1) s))"
  by (simp only: doesVoxelIntersectObject_def Let_def first_of_three)

text \<open>
  Claim C1. For every cell center \<open>(x, y, z)\<close> and cell edge length \<open>size\<close>, the
  Occupancy Sampler returns true if and only if at least one of the twelve rays of the
  specification hits the surface of the object at a distance at most \<open>size\<close>, and
  false otherwise. The ray query lists the hits of a ray nearest first.
\<close>

theorem sampler_twelve_rays:
  assumes "\<And>origin direction. sorted (intersect origin direction)"
  shows "length (spec_rays x y z s) = 12 \<and>
         (fst (doesVoxelIntersectObject intersect x y z s) \<longleftrightarrow>
           (\<exists>(origin, direction)\<in>set (spec_rays x y z s).
              \<exists>t\<in>set (intersect origin direction). js_le (Fin t) s))"
proof
  show "length (spec_rays x y z s) = 12"
    by (simp add: spec_rays_def Let_def)
  have near: "(case intersect c d of [] \<Rightarrow> False | t # _ \<Rightarrow> js_le (Fin t) s) \<longleftrightarrow>
              (\<exists>t\<in>set (intersect c d). js_le (Fin t) s)" for c d
    using assms by (rule nearest_hit)
  show "fst (doesVoxelIntersectObject intersect x y z s) \<longleftrightarrow>
           (\<exists>(origin, direction)\<in>set (spec_rays x y z s).
              \<exists>t\<in>set (intersect origin direction). js_le (Fin t) s)"
    unfolding doesVoxelIntersectObject_fst castCorners_fst near
    by (simp add: spec_rays_def Let_def) blast
qed

lemma cube_hits_sorted: "sorted (cube_hits origin direction)"
proof -
  have "sorted (filter (\<lambda>t. 0 \<le> t) [- 1 / 2 - a, 1 / 2 - a])" for a :: real
    by simp
  then show ?thesis
    by (simp add: cube_hits_def Let_def split: prod.splits number.splits)
qed

theorem sampler_twelve_rays_witness:
  "length (spec_rays (Fin 0) (Fin 0) (Fin 0) (Fin 1)) = 12 \<and>
   fst (doesVoxelIntersectObject cube_hits (Fin 0) (Fin 0) (Fin 0) (Fin 1)) \<and>
   (\<exists>(origin, direction)\<in>set (spec_rays (Fin 0) (Fin 0) (Fin 0) (Fin 1)).
      \<exists>t\<in>set (cube_hits origin direction). js_le (Fin t) (Fin 1)) \<and>
   \<not> fst (doesVoxelIntersectObject cube_hits (Fin 3) (Fin 3) (Fin 3) (Fin 1)) \<and>
   \<not> (\<exists>(origin, direction)\<in>set (spec_rays (Fin 3) (Fin 3) (Fin 3) (Fin 1)).
      \<exists>t\<in>set (cube_hits origin direction). js_le (Fin t) (Fin 1))"
proof -
  note near = sampler_twelve_rays [of cube_hits, OF cube_hits_sorted]
  have hit: "fst (doesVoxelIntersectObject cube_hits (Fin 0) (Fin 0) (Fin 0) (Fin 1))"
    by (simp add: doesVoxelIntersectObject_def Let_def js_sub_def cube_hits_def)
  have miss: "\<not> fst (doesVoxelIntersectObject cube_hits (Fin 3) (Fin 3) (Fin 3) (Fin 1))"
    by (simp add: doesVoxelIntersectObject_def Let_def js_sub_def cube_hits_def)
  from hit miss near [of "Fin 0" "Fin 0" "Fin 0" "Fin 1"] near [of "Fin 3" "Fin 3" "Fin 3" "Fin 1"]
  show ?thesis by blast
qed

section \<open>Properties of the Grid Builder\<close>

lemma calculateGrid_fst:
  "fst (calculateGrid intersect vpu sizeX sizeY sizeZ) =
     map (\<lambda>i. map (\<lambda>j. map (\<lambda>k. spec_cell intersect vpu sizeX sizeY sizeZ i j k)
       [0..<rounds sizeZ]) [0..<rounds sizeY]) [0..<rounds sizeX]"
  by (simp add: calculateGrid_def for_collect_upt spec_cell_def Let_def case_prod_unfold)


lemma length_concat_const:
  "(\<And>xs. xs \<in> set xss \<Longrightarrow> length xs = n) \<Longrightarrow> length (concat xss) = length xss * n"
  by (induction xss) auto

text \<open>
  Claim C2. For non-negative integer extents the Grid Builder produces a dense grid with
  exactly \<open>(sizeX + 1) * (sizeY + 1) * (sizeZ + 1)\<close> cells, one at each index triple
  \<open>(i, j, k)\<close> with \<open>i \<le> sizeX\<close>, \<open>j \<le> sizeY\<close>, \<open>k \<le> sizeZ\<close>. The cell at an
  index triple has the coordinates of the Coordinate Mapper at \<open>(i, sizeX)\<close>,
  \<open>(j, sizeY)\<close>, \<open>(k, sizeZ)\<close> and the occupancy flag of the Occupancy Sampler at these
  coordinates with the cell size \<open>1 / density\<close>.
\<close>

theorem grid_cells:
  fixes sizeX sizeY sizeZ :: nat and vpu :: real
    and intersect :: "vector3 \<Rightarrow> vector3 \<Rightarrow> real list"
  defines "grid \<equiv> fst (calculateGrid intersect vpu (real sizeX) (real sizeY) (real sizeZ))"
  shows "length grid = sizeX + 1
       \<and> (\<forall>i\<le>sizeX. length (grid ! i) = sizeY + 1
            \<and> (\<forall>j\<le>sizeY. length (grid ! i ! j) = sizeZ + 1
                 \<and> (\<forall>k\<le>sizeZ. grid ! i ! j ! k =
                        spec_cell intersect vpu (real sizeX) (real sizeY) (real sizeZ) i j k)))
       \<and> length (concat (concat grid)) = (sizeX + 1) * (sizeY + 1) * (sizeZ + 1)"
proof -
  have g: "grid = map (\<lambda>i. map (\<lambda>j. map (\<lambda>k.
             spec_cell intersect vpu (real sizeX) (real sizeY) (real sizeZ) i j k)
             [0..<Suc sizeZ]) [0..<Suc sizeY]) [0..<Suc sizeX]"
    unfolding grid_def calculateGrid_fst by simp
  have rows: "length row = Suc sizeY" if "row \<in> set grid" for row
    using that unfolding g by auto
  have cols: "length col = Suc sizeZ" if "col \<in> set (concat grid)" for col
    using that unfolding g by auto
  have "length (concat grid) = length grid * Suc sizeY"
    using rows by (rule length_concat_const)
  moreover have "length (concat (concat grid)) = length (concat grid) * Suc sizeZ"
    using cols by (rule length_concat_const)
  moreover have "length grid = Suc sizeX" unfolding g by simp
  ultimately have count: "length (concat (concat grid)) = (sizeX + 1) * (sizeY + 1) * (sizeZ + 1)"
    by simp
  have cells: "length grid = sizeX + 1
       \<and> (\<forall>i\<le>sizeX. length (grid ! i) = sizeY + 1
            \<and> (\<forall>j\<le>sizeY. length (grid ! i ! j) = sizeZ + 1
                 \<and> (\<forall>k\<le>sizeZ. grid ! i ! j ! k =
                        spec_cell intersect vpu (real sizeX) (real sizeY) (real sizeZ) i j k)))"
    unfolding g by (simp add: nth_map_upt less_Suc_eq_le del: upt_Suc)
  from cells count show ?thesis by blast
qed

theorem grid_cells_witness:
  "length (fst (calculateGrid cube_hits 1 (real 1) (real 1) (real 1))) = 1 + 1
   \<and> length (fst (calculateGrid cube_hits 1 (real 1) (real 1) (real 1)) ! 1) = 1 + 1
   \<and> length (fst (calculateGrid cube_hits 1 (real 1) (real 1) (real 1)) ! 1 ! 0) = 1 + 1
   \<and> fst (calculateGrid cube_hits 1 (real 1) (real 1) (real 1)) ! 1 ! 0 ! 1 =
       spec_cell cube_hits 1 (real 1) (real 1) (real 1) 1 0 1
   \<and> length (concat (concat (fst (calculateGrid cube_hits 1 (real 1) (real 1) (real 1))))) =
       (1 + 1) * (1 + 1) * (1 + 1)"
proof -
  note g = grid_cells [of cube_hits 1 1 1 1]
  have i: "(1::nat) \<le> 1" and j: "(0::nat) \<le> 1" by simp_all
  from g i j show ?thesis by blast
qed

section \<open>Properties of the Voxel Renderer\<close>

lemma add_all_Nil [simp]: "add_all [] w = w"
  by (simp add: add_all_def)

lemma add_all_add_all [simp]: "add_all ys (add_all xs w) = add_all (xs @ ys) w"
  by (simp add: add_all_def)

lemma scene_add_add_all: "scene_add object w = add_all [object] w"
  by (simp add: scene_add_def add_all_def)

lemma for_each_add_all:
  assumes "\<And>x w. x \<in> set xs \<Longrightarrow> body x w = Inr (add_all (g x) w)"
  shows "for_each body xs w = Inr (add_all (concat (map g xs)) w)"
  using assms by (induction xs arbitrary: w) simp_all

lemma concat_map_if:
  "concat (map (\<lambda>x. if P x then [f x] else []) xs) = map f (filter P xs)"
  by (induction xs) simp_all

lemma map_nth_upt: "map (\<lambda>k. h (xs ! k)) [0..<length xs] = map h xs"
proof -
  have "map (\<lambda>k. h (xs ! k)) [0..<length xs] = map h (map (\<lambda>k. xs ! k) [0..<length xs])"
    by (simp add: comp_def)
  then show ?thesis by (simp only: map_nth)
qed

lemma concat_map_filter:
  "concat (map (\<lambda>xs. map f (filter P xs)) xss) = map f (filter P (concat xss))"
  by (induction xss) simp_all

lemma drawCell_in_range:
  assumes "i < length grid" "j < length (grid ! i)" "k < length (grid ! i ! j)"
  shows "drawCell vpu grid material' i j k w =
           Inr (add_all (if cell_value (grid ! i ! j ! k)
                         then [voxel_of vpu material' (grid ! i ! j ! k)] else []) w)"
  using assms
  by (simp add: drawCell_def grid_at_def Let_def newMesh_def position_set_def
      scene_add_add_all voxel_of_def)

lemma drawGrid_well_formed:
  assumes len: "length grid = rounds sizeX"
    and rows: "\<And>row. row \<in> set grid \<Longrightarrow> length row = rounds sizeY"
    and cols: "\<And>row col. row \<in> set grid \<Longrightarrow> col \<in> set row \<Longrightarrow> length col = rounds sizeZ"
  shows "drawGrid vpu sizeX sizeY sizeZ grid material' w =
           Inr (add_all (map (voxel_of vpu material') (filter cell_value (concat (concat grid)))) w)"
proof -
  let ?v = "voxel_of vpu material'"
  have inner: "for_each (\<lambda>k. drawCell vpu grid material' i j k) [0..<rounds sizeZ] w' =
                 Inr (add_all (map ?v (filter cell_value (grid ! i ! j))) w')"
    if i: "i < length grid" and j: "j < length (grid ! i)" for i j w'
  proof -
    from i j have l: "length (grid ! i ! j) = rounds sizeZ"
      using cols [of "grid ! i" "grid ! i ! j"] by simp
    have "for_each (\<lambda>k. drawCell vpu grid material' i j k) [0..<rounds sizeZ] w' =
            Inr (add_all (concat (map (\<lambda>k. if cell_value (grid ! i ! j ! k)
                         then [?v (grid ! i ! j ! k)] else []) [0..<rounds sizeZ])) w')"
      by (rule for_each_add_all) (simp add: drawCell_in_range i j l)
    also have "concat (map (\<lambda>k. if cell_value (grid ! i ! j ! k)
                         then [?v (grid ! i ! j ! k)] else []) [0..<rounds sizeZ]) =
               concat (map (\<lambda>c. if cell_value c then [?v c] else []) (grid ! i ! j))"
      using map_nth_upt [of "\<lambda>c. if cell_value c then [?v c] else []" "grid ! i ! j"]
      by (simp add: l)
    finally show ?thesis by (simp add: concat_map_if)
  qed
  have middle: "for_each (\<lambda>j. for_state sizeZ 0 (\<lambda>k. drawCell vpu grid material' i j k))
                  [0..<rounds sizeY] w' =
                 Inr (add_all (map ?v (filter cell_value (concat (grid ! i)))) w')"
    if i: "i < length grid" for i w'
  proof -
    from i have l: "length (grid ! i) = rounds sizeY" using rows [of "grid ! i"] by simp
    have "for_each (\<lambda>j. for_state sizeZ 0 (\<lambda>k. drawCell vpu grid material' i j k))
            [0..<rounds sizeY] w' =
          Inr (add_all (concat (map (\<lambda>j. map ?v (filter cell_value (grid ! i ! j)))
                 [0..<rounds sizeY])) w')"
      by (rule for_each_add_all) (simp add: for_state_upt inner i l)
    also have "concat (map (\<lambda>j. map ?v (filter cell_value (grid ! i ! j))) [0..<rounds sizeY]) =
               concat (map (\<lambda>col. map ?v (filter cell_value col)) (grid ! i))"
      using map_nth_upt [of "\<lambda>col. map ?v (filter cell_value col)" "grid ! i"] by (simp add: l)
    finally show ?thesis by (simp add: concat_map_filter)
  qed
  have "for_each (\<lambda>i. for_state sizeY 0 (\<lambda>j. for_state sizeZ 0
                   (\<lambda>k. drawCell vpu grid material' i j k))) [0..<rounds sizeX] w =
        Inr (add_all (concat (map (\<lambda>i. map ?v (filter cell_value (concat (grid ! i))))
               [0..<rounds sizeX])) w)"
    by (rule for_each_add_all) (simp add: for_state_upt middle len)
  also have "concat (map (\<lambda>i. map ?v (filter cell_value (concat (grid ! i)))) [0..<rounds sizeX]) =
             concat (map (\<lambda>row. map ?v (filter cell_value (concat row))) grid)"
    using map_nth_upt [of "\<lambda>row. map ?v (filter cell_value (concat row))" grid] by (simp add: len)
  also have "\<dots> = map ?v (filter cell_value (concat (concat grid)))"
    by (induction grid) simp_all
  finally show ?thesis by (simp only: drawGrid_def for_state_upt [of sizeX])
qed

text \<open>
  Claim C7. Given an occupancy grid for the extents and a positive density, the Voxel
  Renderer adds to the scene exactly one cube mesh for each cell whose flag is true, in
  the order of the grid, and none for a cell whose flag is false. Each cube has the edge
  length \<open>1 / density\<close>, the position of the stored coordinates of its cell, and the
  one material that was passed.
\<close>

theorem drawGrid_voxels:
  fixes sizeX sizeY sizeZ :: nat
  assumes "0 < vpu"
    and "length grid = sizeX + 1"
    and "\<forall>row\<in>set grid. length row = sizeY + 1 \<and> (\<forall>col\<in>set row. length col = sizeZ + 1)"
  shows "drawGrid vpu (real sizeX) (real sizeY) (real sizeZ) grid (Some m) w =
           Inr (w\<lparr>scene := scene w @
                    map (\<lambda>c. Object3D True
                               (Some (BoxGeometry (Fin (1 / vpu)) (Fin (1 / vpu)) (Fin (1 / vpu))))
                               (OneMaterial m) (cell_x c, cell_y c, cell_z c) [])
                      (filter cell_value (concat (concat grid))),
                  trace := trace w @
                    map (\<lambda>c. SceneAdd (Object3D True
                               (Some (BoxGeometry (Fin (1 / vpu)) (Fin (1 / vpu)) (Fin (1 / vpu))))
                               (OneMaterial m) (cell_x c, cell_y c, cell_z c) []))
                      (filter cell_value (concat (concat grid)))\<rparr>)"
proof -
  from assms(1) have v: "voxel_of vpu (Some m) =
       (\<lambda>c. Object3D True (Some (BoxGeometry (Fin (1 / vpu)) (Fin (1 / vpu)) (Fin (1 / vpu))))
              (OneMaterial m) (cell_x c, cell_y c, cell_z c) [])"
    by (simp add: voxel_of_def fun_eq_iff)
  have "drawGrid vpu (real sizeX) (real sizeY) (real sizeZ) grid (Some m) w =
          Inr (add_all (map (voxel_of vpu (Some m)) (filter cell_value (concat (concat grid)))) w)"
    using assms(2,3) by (intro drawGrid_well_formed) simp_all
  then show ?thesis by (simp add: v add_all_def comp_def)
qed

theorem drawGrid_voxels_witness:
  "drawGrid 2 (real 0) (real 0) (real 1)
     [[[\<lparr>cell_value = True, cell_x = Fin (1 / 4), cell_y = Fin (1 / 4), cell_z = Fin 0\<rparr>,
        \<lparr>cell_value = False, cell_x = Fin (1 / 4), cell_y = Fin (1 / 4), cell_z = Fin (1 / 2)\<rparr>]]]
     (Some (MaterialClone (Material 1)))
     \<lparr>scene = [], currentObject = None, voxelsPerUnit = 2, trace = []\<rparr> =
   Inr \<lparr>scene =
          [Object3D True (Some (BoxGeometry (Fin (1 / 2)) (Fin (1 / 2)) (Fin (1 / 2))))
             (OneMaterial (MaterialClone (Material 1))) (Fin (1 / 4), Fin (1 / 4), Fin 0) []],
        currentObject = None, voxelsPerUnit = 2,
        trace =
          [SceneAdd (Object3D True (Some (BoxGeometry (Fin (1 / 2)) (Fin (1 / 2)) (Fin (1 / 2))))
             (OneMaterial (MaterialClone (Material 1))) (Fin (1 / 4), Fin (1 / 4), Fin 0) [])]\<rparr>"
  using drawGrid_voxels [where vpu = 2 and sizeX = 0 and sizeY = 0 and sizeZ = 1
      and m = "MaterialClone (Material 1)"
      and w = "\<lparr>scene = [], currentObject = None, voxelsPerUnit = 2, trace = []\<rparr>"
      and grid = "[[[\<lparr>cell_value = True, cell_x = Fin (1 / 4), cell_y = Fin (1 / 4), cell_z = Fin 0\<rparr>,
        \<lparr>cell_value = False, cell_x = Fin (1 / 4), cell_y = Fin (1 / 4), cell_z = Fin (1 / 2)\<rparr>]]]"]
  by simp

section \<open>Properties of the voxelize pass\<close>





lemma calculateGrid_shape:
  "length (fst (calculateGrid intersect vpu sizeX sizeY sizeZ)) = rounds sizeX"
  "row \<in> set (fst (calculateGrid intersect vpu sizeX sizeY sizeZ)) \<Longrightarrow>
     length row = rounds sizeY"
  "row \<in> set (fst (calculateGrid intersect vpu sizeX sizeY sizeZ)) \<Longrightarrow> col \<in> set row \<Longrightarrow>
     length col = rounds sizeZ"
  unfolding calculateGrid_fst by auto

text \<open>
  \<^verbatim>\<open>clearScene\<close> takes the meshes out of the children of the scene and disposes of
  their geometries and materials; it does not look below the children.
\<close>

lemma fold_dispose_material:
  "fold dispose_material ms w = w\<lparr>trace := trace w @ map DisposeMaterial ms\<rparr>"
  by (induction ms arbitrary: w) (simp_all add: dispose_material_def)

lemma clearChild_events:
  "clearChild child w =
     (if isMesh child
      then w\<lparr>scene := remove1 child (scene w), trace := trace w @ child_events child\<rparr>
      else w)"
  by (simp add: clearChild_def child_events_def scene_remove_def dispose_geometry_def
      dispose_material_def fold_dispose_material Let_def
      split: option.splits material_slot.splits)

lemma fold_clearChild:
  "fold clearChild xs w =
     w\<lparr>scene := fold (\<lambda>child ys. if isMesh child then remove1 child ys else ys) xs (scene w),
       trace := trace w @ concat (map child_events (filter isMesh xs))\<rparr>"
  by (induction xs arbitrary: w) (simp_all add: clearChild_events)

lemma fold_remove_meshes:
  assumes "\<forall>p\<in>set pre. \<not> isMesh p"
  shows "fold (\<lambda>child ys. if isMesh child then remove1 child ys else ys) xs (pre @ xs) =
           pre @ filter (\<lambda>child. \<not> isMesh child) xs"
  using assms
proof (induction xs arbitrary: pre)
  case Nil
  then show ?case by simp
next
  case (Cons x xs)
  show ?case
  proof (cases "isMesh x")
    case True
    with Cons.prems have "x \<notin> set pre" by blast
    then have "remove1 x (pre @ x # xs) = pre @ xs" by (simp add: remove1_append)
    with True Cons.IH [OF Cons.prems] show ?thesis by simp
  next
    case False
    with Cons.prems have "\<forall>p\<in>set (pre @ [x]). \<not> isMesh p" by simp
    from Cons.IH [OF this] False show ?thesis by simp
  qed
qed

lemma clearScene_result:
  "clearScene w =
     w\<lparr>scene := filter (\<lambda>child. \<not> isMesh child) (scene w),
       trace := trace w @ concat (map child_events (filter isMesh (scene w)))\<rparr>"
  using fold_remove_meshes [of "[]" "scene w"] by (simp add: clearScene_def fold_clearChild)

lemma captured_snoc:
  "captured (nodes @ [child]) =
     (case material child of
        OneMaterial m \<Rightarrow> if isMesh child then Some (MaterialClone m) else captured nodes
      | _ \<Rightarrow> captured nodes)"
  by (simp add: captured_def cloned_def split: material_slot.splits)

lemma for_each_captureMaterial:
  "for_each captureMaterial nodes (captured seen, w) =
     (if array_free nodes
      then Inr (captured (seen @ nodes), w\<lparr>trace := trace w @ map CloneMaterial (cloned nodes)\<rparr>)
      else Inl TypeError)"
proof (induction nodes arbitrary: seen w)
  case Nil
  then show ?case by (simp add: array_free_def cloned_def)
next
  case (Cons child nodes)
  show ?case
  proof (cases "material child")
    case NoMaterial
    then have c: "captured (seen @ [child]) = captured seen" by (simp add: captured_snoc)
    from NoMaterial Cons [of "seen @ [child]" w] show ?thesis
      by (simp add: captureMaterial_def array_free_def cloned_def c)
  next
    case (OneMaterial m)
    show ?thesis
    proof (cases "isMesh child")
      case True
      with OneMaterial have c: "captured (seen @ [child]) = Some (MaterialClone m)"
        by (simp add: captured_snoc)
      from True OneMaterial
        Cons [of "seen @ [child]" "w\<lparr>trace := trace w @ [CloneMaterial m]\<rparr>"]
      show ?thesis by (simp add: captureMaterial_def array_free_def cloned_def c)
    next
      case False
      with OneMaterial have c: "captured (seen @ [child]) = captured seen"
        by (simp add: captured_snoc)
      from False OneMaterial Cons [of "seen @ [child]" w] show ?thesis
        by (simp add: captureMaterial_def array_free_def cloned_def c)
    qed
  next
    case (MaterialArray ms)
    show ?thesis
    proof (cases "isMesh child")
      case True
      with MaterialArray show ?thesis by (simp add: captureMaterial_def array_free_def)
    next
      case False
      with MaterialArray have c: "captured (seen @ [child]) = captured seen"
        by (simp add: captured_snoc)
      from False MaterialArray Cons [of "seen @ [child]" w] show ?thesis
        by (simp add: captureMaterial_def array_free_def cloned_def c)
    qed
  qed
qed

lemma voxelize_result:
  assumes "currentObject w = Some object"
  shows "voxelize three w =
     (if array_free (traverse object)
      then Inr (w\<lparr>scene := filter (\<lambda>child. \<not> isMesh child) (remove1 object (scene w)) @
                          voxels_of three w object,
                 trace := trace w @ snd (grid_of three w object) @
                          map CloneMaterial (cloned (traverse object)) @
                          [SceneRemove object] @
                          concat (map child_events (filter isMesh (remove1 object (scene w)))) @
                          map SceneAdd (voxels_of three w object)\<rparr>)
      else Inl TypeError)"
proof -
  let ?sx = "real_of_int (dim_x (getDimensions three object)) * voxelsPerUnit w"
  let ?sy = "real_of_int (dim_y (getDimensions three object)) * voxelsPerUnit w"
  let ?sz = "real_of_int (dim_z (getDimensions three object)) * voxelsPerUnit w"
  let ?g = "calculateGrid (intersectObject three object) (voxelsPerUnit w) ?sx ?sy ?sz"
  have cap: "for_each captureMaterial (traverse object) (None, w') =
     (if array_free (traverse object)
      then Inr (captured (traverse object),
                w'\<lparr>trace := trace w' @ map CloneMaterial (cloned (traverse object))\<rparr>)
      else Inl TypeError)" for w'
    using for_each_captureMaterial [of "traverse object" "[]" w']
    by (simp add: captured_def cloned_def)
  have draw: "drawGrid vpu ?sx ?sy ?sz (fst ?g) m w' =
      Inr (add_all (map (voxel_of vpu m) (filter cell_value (concat (concat (fst ?g))))) w')"
    for vpu m w'
    by (rule drawGrid_well_formed) (simp_all add: calculateGrid_shape)
  show ?thesis
    using assms
    by (simp add: voxelize_def Let_def case_prod_unfold cap draw clearScene_result
        scene_remove_def add_all_def grid_of_def voxels_of_def)
qed


section \<open>Properties of the Dimension Calculator\<close>

lemma ceiling_cases:
  fixes s :: real
  shows "(s \<in> \<int> \<longrightarrow> real_of_int \<lceil>s\<rceil> = s) \<and> (s \<notin> \<int> \<longrightarrow> \<lceil>s\<rceil> = \<lfloor>s\<rfloor> + 1) \<and>
         s \<le> real_of_int \<lceil>s\<rceil>"
proof (intro conjI impI)
  show "real_of_int \<lceil>s\<rceil> = s" if "s \<in> \<int>"
    using that by (auto elim: Ints_cases)
  show "\<lceil>s\<rceil> = \<lfloor>s\<rfloor> + 1" if "s \<notin> \<int>"
  proof -
    from that have "s \<noteq> real_of_int \<lfloor>s\<rfloor>" by (metis Ints_of_int)
    then show ?thesis by (simp add: ceiling_altdef)
  qed
  show "s \<le> real_of_int \<lceil>s\<rceil>" by (rule le_of_int_ceiling)
qed

text \<open>
  Claim C5. For an object whose bounding box has the size \<open>(sx, sy, sz)\<close>, the Dimension
  Calculator returns on each axis the ceiling of the size: the size itself when it is an
  integer, its floor plus one when it is not, and so never less than the size. It takes
  the object and the bounding-box query and returns the dimensions alone.
\<close>

theorem dimensions_ceiling:
  assumes "boxSize three object = (sx, sy, sz)"
  shows "dim_x (getDimensions three object) = \<lceil>sx\<rceil>
       \<and> dim_y (getDimensions three object) = \<lceil>sy\<rceil>
       \<and> dim_z (getDimensions three object) = \<lceil>sz\<rceil>
       \<and> (sx \<in> \<int> \<longrightarrow> real_of_int (dim_x (getDimensions three object)) = sx)
       \<and> (sx \<notin> \<int> \<longrightarrow> dim_x (getDimensions three object) = \<lfloor>sx\<rfloor> + 1)
       \<and> sx \<le> real_of_int (dim_x (getDimensions three object))
       \<and> (sy \<in> \<int> \<longrightarrow> real_of_int (dim_y (getDimensions three object)) = sy)
       \<and> (sy \<notin> \<int> \<longrightarrow> dim_y (getDimensions three object) = \<lfloor>sy\<rfloor> + 1)
       \<and> sy \<le> real_of_int (dim_y (getDimensions three object))
       \<and> (sz \<in> \<int> \<longrightarrow> real_of_int (dim_z (getDimensions three object)) = sz)
       \<and> (sz \<notin> \<int> \<longrightarrow> dim_z (getDimensions three object) = \<lfloor>sz\<rfloor> + 1)
       \<and> sz \<le> real_of_int (dim_z (getDimensions three object))"
  using assms ceiling_cases [of sx] ceiling_cases [of sy] ceiling_cases [of sz]
  by (simp add: getDimensions_def)

theorem dimensions_ceiling_witness:
  "dim_x (getDimensions \<lparr>boxSize = (\<lambda>object. (2, 5 / 2, 1 / 3)), intersectObject = (\<lambda>object. cube_hits)\<rparr>
      example_object) = 2
   \<and> dim_y (getDimensions \<lparr>boxSize = (\<lambda>object. (2, 5 / 2, 1 / 3)), intersectObject = (\<lambda>object. cube_hits)\<rparr>
      example_object) = \<lfloor>5 / 2 :: real\<rfloor> + 1
   \<and> dim_z (getDimensions \<lparr>boxSize = (\<lambda>object. (2, 5 / 2, 1 / 3)), intersectObject = (\<lambda>object. cube_hits)\<rparr>
      example_object) = 1"
proof -
  have b: "boxSize \<lparr>boxSize = (\<lambda>object. (2, 5 / 2, 1 / 3)), intersectObject = (\<lambda>object. cube_hits)\<rparr>
             example_object = (2, 5 / 2, 1 / 3)"
    by simp
  have "(5 / 2 :: real) \<notin> \<int>"
  proof
    assume "(5 / 2 :: real) \<in> \<int>"
    then obtain k :: int where "5 / 2 = real_of_int k" by (auto elim: Ints_cases)
    then have "5 = 2 * k" by linarith
    then show False by presburger
  qed
  with dimensions_ceiling [OF b] show ?thesis by simp
qed


text \<open>Facts about the examples.\<close>

lemma example_array_free: "array_free (traverse example_object)"
  by (simp add: example_object_def array_free_def)








section \<open>Densities and bounding boxes for which no error is raised\<close>

text \<open>
  The only error of a pass is the TypeError of a missing object or of an array of
  materials; the density and the bounding box raise none.
\<close>

lemma grid_count:
  "length (concat (concat (fst (calculateGrid intersect vpu sizeX sizeY sizeZ)))) =
     rounds sizeX * rounds sizeY * rounds sizeZ"
proof -
  let ?g = "fst (calculateGrid intersect vpu sizeX sizeY sizeZ)"
  have "length (concat ?g) = length ?g * rounds sizeY"
    by (rule length_concat_const) (rule calculateGrid_shape)
  moreover have "length (concat (concat ?g)) = length (concat ?g) * rounds sizeZ"
    by (rule length_concat_const) (auto intro: calculateGrid_shape)
  ultimately show ?thesis by (simp add: calculateGrid_shape)
qed

lemma voxelize_completes:
  assumes "currentObject w = Some object" and "array_free (traverse object)"
  shows "\<exists>w'. voxelize three w = Inr w'"
  using assms by (simp add: voxelize_result)

lemma coordinates_at_zero:
  "calculateCoordinates 0 (Fin 0) (Fin 0) = NaN"
  by (simp add: calculateCoordinates_def js_sub_def)

lemma zero_density_cell:
  "fst (doesVoxelIntersectObject cube_hits NaN NaN NaN PosInf) = False"
  by (simp add: doesVoxelIntersectObject_def Let_def js_sub_def cube_hits_def)

lemma example_completes:
  "voxelize three (changeVoxelsPerUnit d example_world) =
     Inr (projr (voxelize three (changeVoxelsPerUnit d example_world)))"
proof -
  have "currentObject (changeVoxelsPerUnit d example_world) = Some example_object"
    by (simp add: changeVoxelsPerUnit_def example_world_def)
  from voxelize_completes [OF this example_array_free]
  obtain w' where "voxelize three (changeVoxelsPerUnit d example_world) = Inr w'" by blast
  then show ?thesis by simp
qed

lemma rounds_nonneg: "0 \<le> n \<Longrightarrow> 1 \<le> rounds n"
  by (simp add: rounds_def)

lemma rounds_zero [simp]: "rounds 0 = 1"
  by (simp add: rounds_def)

lemma plate_grid:
  "fst (grid_of plate_three example_world example_object) =
     map (\<lambda>i. [map (\<lambda>k. \<lparr>cell_value = True, cell_x = Fin (real i), cell_y = Fin (1 / 2),
                            cell_z = Fin (real k)\<rparr>) [0, 1]]) [0, 1]"
  by (simp add: grid_of_def plate_three_def example_world_def getDimensions_def calculateGrid_fst
      rounds_def upt_rec spec_cell_def calculateCoordinates_def js_sub_def
      doesVoxelIntersectObject_def Let_def plate_hits_def)

text \<open>
  Claim C8, as amended. If the configured voxel density is zero or negative when
  voxelization is triggered, for a loaded object none of whose meshes carries an array of
  materials, the pass raises no error and completes. Its grid has at most one cell, so it
  is not unbounded. At density zero the division \<^verbatim>\<open>1 / voxelsPerUnit\<close> is carried out:
  the cell size is \<^verbatim>\<open>Infinity\<close> and the grid is the one cell whose coordinates are
  \<^verbatim>\<open>NaN\<close>.
\<close>

theorem nonpositive_density_no_error:
  assumes "voxelsPerUnit w \<le> 0"
    and "currentObject w = Some object" and "array_free (traverse object)"
    and "boxSize three object = (bx, by, bz)" and "0 \<le> bx" and "0 \<le> by" and "0 \<le> bz"
  shows "(\<exists>w'. voxelize three w = Inr w')
       \<and> length (concat (concat (fst (grid_of three w object)))) \<le> 1
       \<and> (voxelsPerUnit w = 0 \<longrightarrow>
            fst (grid_of three w object) =
              [[[\<lparr>cell_value =
                    fst (doesVoxelIntersectObject (intersectObject three object) NaN NaN NaN PosInf),
                  cell_x = NaN, cell_y = NaN, cell_z = NaN\<rparr>]]])"
proof (intro conjI impI)
  show "\<exists>w'. voxelize three w = Inr w'"
    using assms(2,3) by (rule voxelize_completes)
  have r: "rounds (real_of_int \<lceil>b\<rceil> * voxelsPerUnit w) \<le> 1" if "0 \<le> b" for b :: real
  proof -
    from that have "0 \<le> real_of_int \<lceil>b\<rceil>" by (simp add: ceiling_le_iff le_ceiling_iff)
    with assms(1) have "real_of_int \<lceil>b\<rceil> * voxelsPerUnit w \<le> 0"
      by (simp add: mult_nonneg_nonpos)
    then show ?thesis by (rule rounds_nonpos)
  qed
  have "rounds (real_of_int \<lceil>bx\<rceil> * voxelsPerUnit w) *
        rounds (real_of_int \<lceil>by\<rceil> * voxelsPerUnit w) *
        rounds (real_of_int \<lceil>bz\<rceil> * voxelsPerUnit w) \<le> 1 * 1 * 1"
    using assms(5-7) by (intro mult_le_mono r)
  then show "length (concat (concat (fst (grid_of three w object)))) \<le> 1"
    using assms(4) by (simp add: grid_of_def grid_count getDimensions_def)
  show "fst (grid_of three w object) =
              [[[\<lparr>cell_value =
                    fst (doesVoxelIntersectObject (intersectObject three object) NaN NaN NaN PosInf),
                  cell_x = NaN, cell_y = NaN, cell_z = NaN\<rparr>]]]"
    if "voxelsPerUnit w = 0"
    using that
    by (simp add: grid_of_def calculateGrid_fst rounds_def spec_cell_def coordinates_at_zero)
qed


theorem nonpositive_density_no_error_witness:
  "(\<exists>w'. voxelize cube_three (changeVoxelsPerUnit 0 example_world) = Inr w')
   \<and> length (concat (concat (fst (grid_of cube_three (changeVoxelsPerUnit 0 example_world)
         example_object)))) \<le> 1
   \<and> fst (grid_of cube_three (changeVoxelsPerUnit 0 example_world) example_object) =
         [[[\<lparr>cell_value = False, cell_x = NaN, cell_y = NaN, cell_z = NaN\<rparr>]]]"
proof -
  have d: "voxelsPerUnit (changeVoxelsPerUnit 0 example_world) \<le> 0"
    and z: "voxelsPerUnit (changeVoxelsPerUnit 0 example_world) = 0"
    and cur: "currentObject (changeVoxelsPerUnit 0 example_world) = Some example_object"
    by (simp_all add: changeVoxelsPerUnit_def example_world_def)
  have box: "boxSize cube_three example_object = (1, 1, 1)"
    and hits: "intersectObject cube_three example_object = cube_hits"
    by (simp_all add: cube_three_def)
  have pos: "(0::real) \<le> 1" by simp
  from nonpositive_density_no_error [OF d cur example_array_free box pos pos pos] z
  show ?thesis by (simp add: hits zero_density_cell)
qed

text \<open>
  Claim C8 as stated has the pass raise an error at a density that is zero or negative.
  On the example the pass at density \<open>0\<close> and the pass at density \<open>- 1\<close> complete
  without an error; they remove the model and add no voxel.
\<close>

theorem nonpositive_density_completes:
  "\<not> isl (voxelize cube_three (changeVoxelsPerUnit 0 example_world))
   \<and> scene (projr (voxelize cube_three (changeVoxelsPerUnit 0 example_world))) = [example_light]
   \<and> \<not> isl (voxelize cube_three (changeVoxelsPerUnit (- 1) example_world))
   \<and> scene (projr (voxelize cube_three (changeVoxelsPerUnit (- 1) example_world))) = [example_light]"
proof -
  have cur: "currentObject (changeVoxelsPerUnit d example_world) = Some example_object" for d
    by (simp add: changeVoxelsPerUnit_def example_world_def)
  have l: "\<not> isMesh example_light" "example_light \<noteq> example_object"
    by (simp_all add: example_light_def example_object_def)
  then have rest: "remove1 example_object (scene (changeVoxelsPerUnit d example_world)) = [example_light]"
    for d by (simp add: example_world_def changeVoxelsPerUnit_def)
  have v0: "voxels_of cube_three (changeVoxelsPerUnit 0 example_world) example_object = []"
    by (simp add: voxels_of_def grid_of_def cube_three_def changeVoxelsPerUnit_def
        example_world_def calculateGrid_fst rounds_def spec_cell_def coordinates_at_zero
        zero_density_cell getDimensions_def)
  have v1: "voxels_of cube_three (changeVoxelsPerUnit (- 1) example_world) example_object = []"
    by (simp add: voxels_of_def grid_of_def cube_three_def changeVoxelsPerUnit_def
        example_world_def calculateGrid_fst rounds_def getDimensions_def)
  show ?thesis
    by (simp add: voxelize_result [OF cur] example_array_free rest l v0 v1)
qed

text \<open>
  Claim C9, as amended. If the bounding box of the target object has zero volume, for a
  loaded object none of whose meshes carries an array of materials and a positive density,
  the pass raises no error and completes. Its grid has at least one cell, and a single
  layer of cells along each axis on which the size of the box is zero.
\<close>

theorem degenerate_box_no_error:
  assumes "currentObject w = Some object" and "array_free (traverse object)"
    and "boxSize three object = (bx, by, bz)" and "0 \<le> bx" and "0 \<le> by" and "0 \<le> bz"
    and "bx * by * bz = 0" and "0 < voxelsPerUnit w"
  shows "(\<exists>w'. voxelize three w = Inr w')
       \<and> 1 \<le> length (concat (concat (fst (grid_of three w object))))
       \<and> (bx = 0 \<longrightarrow> length (fst (grid_of three w object)) = 1)
       \<and> (by = 0 \<longrightarrow> (\<forall>row\<in>set (fst (grid_of three w object)). length row = 1))
       \<and> (bz = 0 \<longrightarrow> (\<forall>row\<in>set (fst (grid_of three w object)). \<forall>col\<in>set row. length col = 1))"
proof (intro conjI impI ballI)
  show "\<exists>w'. voxelize three w = Inr w'"
    using assms(1,2) by (rule voxelize_completes)
  have r: "1 \<le> rounds (real_of_int \<lceil>b\<rceil> * voxelsPerUnit w)" if "0 \<le> b" for b :: real
  proof -
    from that have "0 \<le> real_of_int \<lceil>b\<rceil>" by (simp add: ceiling_le_iff le_ceiling_iff)
    with assms(8) have "0 \<le> real_of_int \<lceil>b\<rceil> * voxelsPerUnit w" by simp
    then show ?thesis by (rule rounds_nonneg)
  qed
  have "1 * 1 * 1 \<le> rounds (real_of_int \<lceil>bx\<rceil> * voxelsPerUnit w) *
        rounds (real_of_int \<lceil>by\<rceil> * voxelsPerUnit w) *
        rounds (real_of_int \<lceil>bz\<rceil> * voxelsPerUnit w)"
    using assms(4-6) by (intro mult_le_mono r)
  then show "1 \<le> length (concat (concat (fst (grid_of three w object))))"
    using assms(3) by (simp add: grid_of_def grid_count getDimensions_def)
  show "length (fst (grid_of three w object)) = 1" if "bx = 0"
    using that assms(3) by (simp add: grid_of_def calculateGrid_shape getDimensions_def)
  show "length row = 1" if "by = 0" "row \<in> set (fst (grid_of three w object))" for row
    using that assms(3) calculateGrid_shape(2) [of row]
    by (simp add: grid_of_def getDimensions_def)
  show "length col = 1"
    if "bz = 0" "row \<in> set (fst (grid_of three w object))" "col \<in> set row" for row col
    using that assms(3) calculateGrid_shape(3) [of row _ _ _ _ _ col]
    by (simp add: grid_of_def getDimensions_def)
qed

theorem degenerate_box_no_error_witness:
  "(\<exists>w'. voxelize plate_three example_world = Inr w')
   \<and> 1 \<le> length (concat (concat (fst (grid_of plate_three example_world example_object))))
   \<and> list_all (\<lambda>row. length row = 1) (fst (grid_of plate_three example_world example_object))"
proof -
  have cur: "currentObject example_world = Some example_object"
    and d: "0 < voxelsPerUnit example_world"
    by (simp_all add: example_world_def)
  have box: "boxSize plate_three example_object = (1, 0, 1)"
    by (simp add: plate_three_def)
  have pos: "(0::real) \<le> 1" "(0::real) \<le> 0" and vol: "(1::real) * 0 * 1 = 0" by simp_all
  note t = degenerate_box_no_error [OF cur example_array_free box pos(1) pos(2) pos(1) vol d]
  from t show ?thesis by (simp add: list_all_iff)
qed

text \<open>
  Claim C9 as stated has voxelization fail with an error on a bounding box of zero
  volume. On the flat plate, whose box has the height zero, the pass completes without an
  error and adds four voxels.
\<close>

theorem degenerate_box_completes:
  "\<not> isl (voxelize plate_three example_world)
   \<and> scene (projr (voxelize plate_three example_world)) =
       example_light # voxels_of plate_three example_world example_object
   \<and> length (voxels_of plate_three example_world example_object) = 4"
proof -
  have cur: "currentObject example_world = Some example_object"
    by (simp add: example_world_def)
  have l: "\<not> isMesh example_light" "example_light \<noteq> example_object"
    by (simp_all add: example_light_def example_object_def)
  then have rest: "remove1 example_object (scene example_world) = [example_light]"
    by (simp add: example_world_def)
  have n: "length (voxels_of plate_three example_world example_object) = 4"
    by (simp add: voxels_of_def plate_grid)
  show ?thesis
    by (simp add: voxelize_result [OF cur] example_array_free rest l n)
qed

end
